theory Spec2Isabelle
  imports Main "HOL-Library.AList"
begin

section \<open>Strings of the host language\<close>

text \<open>
  JavaScript strings are modelled as \<open>string\<close>. The two library predicates the code
  uses are \<open>String.prototype.startsWith\<close> and \<open>String.prototype.endsWith\<close>.
\<close>

definition startsWith :: "string \<Rightarrow> string \<Rightarrow> bool" where
  "startsWith s p = (take (length p) s = p)"

definition endsWith :: "string \<Rightarrow> string \<Rightarrow> bool" where
  "endsWith s p = (length p \<le> length s \<and> drop (length s - length p) s = p)"

section \<open>lib/canvas-api.ts: URL normalisation and the client\<close>

text \<open>
  \<^verbatim>\<open>
  export function normalizeCanvasUrl(url: string): string {
    let normalizedUrl = url
    if (!url.startsWith("http://") && !url.startsWith("https://")) {
      normalizedUrl = `https://${url}`
    }
    if (!normalizedUrl.endsWith("/")) {
      normalizedUrl = `${normalizedUrl}/`
    }
    return normalizedUrl
  }
  \<close>
\<close>

definition normalizeCanvasUrl :: "string \<Rightarrow> string" where
  "normalizeCanvasUrl url =
     (let normalizedUrl =
            (if \<not> startsWith url ''http://'' \<and> \<not> startsWith url ''https://''
             then ''https://'' @ url else url)
      in if \<not> endsWith normalizedUrl ''/'' then normalizedUrl @ ''/'' else normalizedUrl)"

text \<open>The class \<open>CanvasApiClient\<close>: two private fields, set by the constructor.\<close>

record CanvasApiClient =
  baseUrl :: string
  token :: string

definition createCanvasApiClient :: "string \<Rightarrow> string \<Rightarrow> CanvasApiClient" where
  "createCanvasApiClient canvasUrl tok =
     \<lparr> baseUrl = normalizeCanvasUrl canvasUrl, token = tok \<rparr>"

text \<open>\<open>endpoint.replace(/^\//, "")\<close>: at most one leading slash is removed.\<close>

fun replace_leading_slash :: "string \<Rightarrow> string" where
  "replace_leading_slash [] = []"
| "replace_leading_slash (c # cs) = (if c = CHR ''/'' then cs else c # cs)"

text \<open>The first statement of \<open>request\<close>: the URL the call is sent to.\<close>

definition request_url :: "CanvasApiClient \<Rightarrow> string \<Rightarrow> string" where
  "request_url c endpoint = baseUrl c @ ''api/v1/'' @ replace_leading_slash endpoint"

section \<open>Values of the host language\<close>

text \<open>
  Every value the handlers receive from outside is parsed JSON. \<open>JNull\<close> is JavaScript's
  \<open>null\<close>; \<open>undefined\<close> (a missing property) is \<open>None\<close> of an option. Numbers are only
  tested for being zero; integers stand for them.
\<close>

datatype json =
    JNull
  | JBool bool
  | JNum int
  | JStr string
  | JArr "json list"
  | JObj "(string \<times> json) list"

text \<open>
  A thrown value: an instance of \<open>Error\<close> with its \<open>message\<close>, or any other value,
  kept as the text that \<open>`${error}`\<close> gives for it.
\<close>

datatype thrown = Error string | NotAnError string

text \<open>The truthiness test behind \<open>!v\<close>, \<open>v || d\<close> and \<open>v ? a : b\<close>.\<close>

fun truthy :: "json \<Rightarrow> bool" where
  "truthy JNull = False"
| "truthy (JBool b) = b"
| "truthy (JNum n) = (n \<noteq> 0)"
| "truthy (JStr s) = (s \<noteq> [])"
| "truthy (JArr xs) = True"
| "truthy (JObj kvs) = True"

text \<open>The same test on a value of type \<open>string | null\<close> (or a missing string).\<close>

fun truthy_str :: "string option \<Rightarrow> bool" where
  "truthy_str None = False"
| "truthy_str (Some s) = (s \<noteq> [])"

text \<open>
  \<open>v.k\<close> for a named property \<open>k\<close> of a value other than \<open>null\<close>: only objects have
  the properties the handlers read (\<open>user\<close>, \<open>errors\<close>, \<open>message\<close> and the fields of a
  request body).
\<close>

fun property :: "json \<Rightarrow> string \<Rightarrow> json option" where
  "property (JObj kvs) k = map_of kvs k"
| "property v k = None"

text \<open>\<open>v[0]\<close> for a value other than \<open>null\<close>.\<close>

fun index0 :: "json \<Rightarrow> json option" where
  "index0 (JArr []) = None"
| "index0 (JArr (x # xs)) = Some x"
| "index0 (JObj kvs) = map_of kvs ''0''"
| "index0 (JStr []) = None"
| "index0 (JStr (c # cs)) = Some (JStr [c])"
| "index0 v = None"

text \<open>\<open>Array.prototype.join(",")\<close> on strings and \<open>String.prototype.split(",")\<close>.\<close>

fun join_comma :: "string list \<Rightarrow> string" where
  "join_comma [] = []"
| "join_comma [x] = x"
| "join_comma (x # y # ys) = x @ '','' @ join_comma (y # ys)"

fun split_comma :: "string \<Rightarrow> string list" where
  "split_comma [] = [[]]"
| "split_comma (c # cs) =
     (if c = CHR '','' then [] # split_comma cs
      else (case split_comma cs of [] \<Rightarrow> [[c]] | x # xs \<Rightarrow> (c # x) # xs))"

text \<open>The decimal text of a number, as \<open>`${response.status}`\<close> prints a status code.\<close>

function decimal :: "nat \<Rightarrow> string" where
  "decimal n =
     (if n < 10 then [char_of (48 + n)]
      else decimal (n div 10) @ [char_of (48 + n mod 10)])"
  by pat_completeness auto
termination
  by (relation "measure id") auto

declare decimal.simps [simp del]

section \<open>The world outside the handlers\<close>

text \<open>
  A row of \<open>user_settings\<close> as the query selects it (types/supabase.ts: both columns are
  \<open>string | null\<close>), and the \<open>{ data, error }\<close> pair that \<open>.single()\<close> resolves to.
\<close>

record settings_row =
  canvas_url :: "string option"
  canvas_token :: "string option"

record query_result =
  data :: "settings_row option"
  error :: "string option"

text \<open>
  The two fields of \<open>user_metadata\<close> the handlers read. The onboarding page writes them
  from text inputs, so they are strings when present.
\<close>

record user_metadata =
  meta_canvas_url :: "string option"
  meta_canvas_token :: "string option"

text \<open>What \<open>fetch\<close> is called with, and the \<open>Response\<close> it resolves to.\<close>

record fetch_request =
  req_url :: string
  req_method :: "string option"
  req_headers :: "(string \<times> string) list"
  req_body :: "string option"

record Response =
  ok :: bool
  status :: nat
  statusText :: string
  json_body :: "thrown + json"

text \<open>
  Everything a handler calls that is not code of this repository: the identity provider
  and database client, \<open>fetch\<close>, the language model, and four primitives of the
  platform (\<open>JSON.parse\<close>, \<open>JSON.stringify\<close>, the text of a number, and the encoding of
  \<open>URLSearchParams\<close>). A promise that rejects and
  a call that throws are both \<open>Inl\<close>.
  \<^item> \<open>getSession\<close>: the user id of the session, \<open>None\<close> when there is no session;
  \<^item> \<open>user_settings\<close>: the query \<open>from("user_settings") ... eq("user_id", id).single()\<close>;
  \<^item> \<open>getUser\<close>: \<open>userData.user?.user_metadata\<close>, \<open>None\<close> when it is missing;
  \<^item> \<open>generateText\<close>: the \<open>text\<close> of the completion for a prompt (the call fixes the
    model \<open>gpt-4o\<close>, temperature 0.2 and \<open>maxTokens\<close> 2000).
\<close>

record world =
  getSession :: "string option"
  user_settings :: "string \<Rightarrow> thrown + query_result"
  getUser :: "user_metadata option"
  fetch :: "fetch_request \<Rightarrow> thrown + Response"
  generateText :: "string \<Rightarrow> thrown + string"
  JSON_parse :: "string \<Rightarrow> thrown + json"
  JSON_stringify :: "json \<Rightarrow> string"
  Number_toString :: "int \<Rightarrow> string"
  urlencoded :: "string \<Rightarrow> string"

text \<open>The calls a handler makes to the outside, in order.\<close>

datatype event =
    CallGetSession
  | CallUserSettings string
  | CallGetUser
  | CallFetch fetch_request
  | CallGenerateText string

text \<open>
  \<open>String(v)\<close>, as a template literal and \<open>new Error(v)\<close> apply it to a parsed JSON value;
  the first argument is the platform's text of a number.
  \<^item> An object is converted by its \<open>toString\<close>, then its \<open>valueOf\<close>. A parsed object
    with an own property \<open>toString\<close> hides the inherited method with a value that cannot
    be called, and the inherited \<open>valueOf\<close> returns the object itself, so the conversion
    throws a \<open>TypeError\<close>. Without that property the inherited method gives
    \<open>[object Object]\<close>.
  \<^item> An array is joined with commas: \<open>null\<close> elements give the empty string, the others
    are converted in order, and the first failure is thrown.
\<close>

text \<open>\<open>typeof v === "object"\<close> for a value other than \<open>null\<close>: an object or an array.\<close>

fun is_object :: "json \<Rightarrow> bool" where
  "is_object (JObj kvs) = True"
| "is_object (JArr xs) = True"
| "is_object v = False"

definition cannot_convert :: thrown where
  "cannot_convert = Error ''Cannot convert object to primitive value''"

fun js_String :: "(int \<Rightarrow> string) \<Rightarrow> json \<Rightarrow> thrown + string"
  and js_join :: "(int \<Rightarrow> string) \<Rightarrow> json list \<Rightarrow> thrown + string" where
  "js_String num (JStr s) = Inr s"
| "js_String num JNull = Inr ''null''"
| "js_String num (JBool b) = Inr (if b then ''true'' else ''false'')"
| "js_String num (JNum n) = Inr (num n)"
| "js_String num (JObj kvs) =
     (case map_of kvs ''toString'' of
        Some v \<Rightarrow> Inl cannot_convert
      | None \<Rightarrow> Inr ''[object Object]'')"
| "js_String num (JArr xs) = js_join num xs"
| "js_join num [] = Inr []"
| "js_join num (x # xs) =
     (case (if x = JNull then Inr [] else js_String num x) of
        Inl e \<Rightarrow> Inl e
      | Inr s \<Rightarrow>
          (if xs = [] then Inr s
           else (case js_join num xs of
                   Inl e \<Rightarrow> Inl e
                 | Inr r \<Rightarrow> Inr (s @ '','' @ r))))"

section \<open>lib/canvas-api.ts: the request primitive\<close>

text \<open>The \<open>RequestInit\<close> options the client's methods pass.\<close>

record RequestInit =
  opt_method :: "string option"
  opt_headers :: "(string \<times> string) list"
  opt_body :: "string option"

definition no_options :: RequestInit where
  "no_options = \<lparr> opt_method = None, opt_headers = [], opt_body = None \<rparr>"

text \<open>
  \<^verbatim>\<open>
  const headers = {
    Authorization: `Bearer ${this.token}`,
    Accept: "application/json",
    "Content-Type": "application/json",
    ...options.headers,
  }
  \<close>
\<close>

definition request_headers :: "CanvasApiClient \<Rightarrow> RequestInit \<Rightarrow> (string \<times> string) list" where
  "request_headers c options =
     fold (\<lambda>(k, v) hs. AList.update k v hs) (opt_headers options)
       [(''Authorization'', ''Bearer '' @ token c),
        (''Accept'', ''application/json''),
        (''Content-Type'', ''application/json'')]"

text \<open>
  \<open>errorData.errors?.[0]?.message\<close>, inside the inner \<open>try\<close> whose \<open>catch\<close> is empty:
  \<open>None\<close> when the chain gives \<open>undefined\<close>, and also when \<open>errorData\<close> is \<open>null\<close> and
  the property access throws, since in both cases \<open>errorMessage\<close> keeps its value.
\<close>

definition errors_0_message :: "json \<Rightarrow> json option" where
  "errors_0_message errorData =
     (if errorData = JNull then None
      else (case property errorData ''errors'' of
              None \<Rightarrow> None
            | Some errors \<Rightarrow>
                if errors = JNull then None
                else (case index0 errors of
                        None \<Rightarrow> None
                      | Some e \<Rightarrow> if e = JNull then None else property e ''message'')))"

text \<open>
  The \<open>catch (error)\<close> block of \<open>request\<close>:
  \<^verbatim>\<open>
  if (error instanceof Error) {
    if (error.message === "Failed to fetch") {
      const enhancedError = new Error(
        `Network error when connecting to Canvas API at ${url}. Please check your Canvas URL and network connection.`)
      if (throwOnError) { throw enhancedError } else { console.warn(enhancedError.message); return null }
    }
    if (throwOnError) { throw error } else { console.warn(error.message); return null }
  }
  const genericError = new Error(`Failed to connect to Canvas API: ${error}`)
  if (throwOnError) { throw genericError } else { console.warn(genericError.message); return null }
  \<close>
\<close>

definition enhancedError :: "string \<Rightarrow> thrown" where
  "enhancedError u =
     Error (''Network error when connecting to Canvas API at '' @ u
            @ ''. Please check your Canvas URL and network connection.'')"

fun request_catch :: "string \<Rightarrow> thrown \<Rightarrow> bool \<Rightarrow> thrown + json" where
  "request_catch u (Error m) throwOnError =
     (if m = ''Failed to fetch''
      then (if throwOnError then Inl (enhancedError u) else Inr JNull)
      else (if throwOnError then Inl (Error m) else Inr JNull))"
| "request_catch u (NotAnError t) throwOnError =
     (if throwOnError then Inl (Error (''Failed to connect to Canvas API: '' @ t))
      else Inr JNull)"

text \<open>
  \<open>request\<close>. A rejected \<open>fetch\<close> and the \<open>throw new Error(errorMessage)\<close> of the
  non-success branch both land in the \<open>catch\<close> block, and so does the \<open>TypeError\<close> of
  \<open>new Error(errorMessage)\<close> when the extracted message cannot be converted. \<open>return response.json()\<close> is not
  awaited inside the \<open>try\<close>, so a body that fails to parse rejects the call as it is.
  The result \<open>null\<close> is \<open>JNull\<close>.
\<close>

definition request ::
  "world \<Rightarrow> CanvasApiClient \<Rightarrow> string \<Rightarrow> RequestInit \<Rightarrow> bool \<Rightarrow> (thrown + json) \<times> event list" where
  "request w c endpoint options throwOnError =
     (let u = request_url c endpoint;
          req = \<lparr> req_url = u, req_method = opt_method options,
                  req_headers = request_headers c options, req_body = opt_body options \<rparr>
      in (case fetch w req of
            Inl err \<Rightarrow> request_catch u err throwOnError
          | Inr response \<Rightarrow>
              if \<not> ok response then
                (let errorMessage0 = JStr (''Canvas API error: '' @ decimal (status response)
                                           @ '' '' @ statusText response);
                     errorMessage =
                       (case json_body response of
                          Inl e \<Rightarrow> errorMessage0
                        | Inr errorData \<Rightarrow>
                            (case errors_0_message errorData of
                               None \<Rightarrow> errorMessage0
                             | Some m \<Rightarrow> if truthy m then m else errorMessage0))
                 in if throwOnError then
                      (case js_String (Number_toString w) errorMessage of
                         Inl e \<Rightarrow> request_catch u e throwOnError
                       | Inr m \<Rightarrow> request_catch u (Error m) throwOnError)
                    else Inr JNull)
              else json_body response,
          [CallFetch req]))"

text \<open>The typed operations the submission routes use.\<close>

definition getAssignment ::
  "world \<Rightarrow> CanvasApiClient \<Rightarrow> string \<Rightarrow> string \<Rightarrow> (thrown + json) \<times> event list" where
  "getAssignment w c courseId assignmentId =
     request w c (''courses/'' @ courseId @ ''/assignments/'' @ assignmentId) no_options True"

text \<open>
  \<open>queryParams.toString()\<close> after the optional \<open>queryParams.set("include", ...)\<close>.
\<close>

definition include_query :: "world \<Rightarrow> string list option \<Rightarrow> string" where
  "include_query w include =
     (case include of
        None \<Rightarrow> []
      | Some xs \<Rightarrow> if length xs > 0 then ''include='' @ urlencoded w (join_comma xs) else [])"

definition getSubmission ::
  "world \<Rightarrow> CanvasApiClient \<Rightarrow> string \<Rightarrow> string \<Rightarrow> string \<Rightarrow> string list option
     \<Rightarrow> (thrown + json) \<times> event list" where
  "getSubmission w c courseId assignmentId userId include =
     request w c
       (''courses/'' @ courseId @ ''/assignments/'' @ assignmentId @ ''/submissions/'' @ userId
          @ ''?'' @ include_query w include)
       no_options True"

text \<open>
  \<open>getUserById\<close> awaits the request inside its own \<open>try\<close>; with \<open>throwOnError\<close> false it
  turns every failure into \<open>null\<close>.
\<close>

definition getUserById ::
  "world \<Rightarrow> CanvasApiClient \<Rightarrow> string \<Rightarrow> bool \<Rightarrow> (thrown + json) \<times> event list" where
  "getUserById w c userId throwOnError =
     (case request w c (''users/'' @ userId) no_options throwOnError of
        (Inl err, evs) \<Rightarrow> (if throwOnError then Inl err else Inr JNull, evs)
      | (Inr v, evs) \<Rightarrow> (Inr v, evs))"

definition updateSubmissionGrade ::
  "world \<Rightarrow> CanvasApiClient \<Rightarrow> string \<Rightarrow> string \<Rightarrow> string \<Rightarrow> json
     \<Rightarrow> (thrown + json) \<times> event list" where
  "updateSubmissionGrade w c courseId assignmentId userId d =
     request w c
       (''courses/'' @ courseId @ ''/assignments/'' @ assignmentId @ ''/submissions/'' @ userId)
       \<lparr> opt_method = Some ''PUT'', opt_headers = [], opt_body = Some (JSON_stringify w d) \<rparr>
       True"

section \<open>The route handlers\<close>

text \<open>
  A handler's answer, \<open>NextResponse.json(body, { status })\<close>, and the parts of the incoming
  request the handlers read: the \<open>include\<close> search parameter of \<open>request.url\<close> and
  \<open>await request.json()\<close>.
\<close>

record NextResponse =
  status_code :: nat
  content :: json

definition NextResponse_json :: "json \<Rightarrow> nat \<Rightarrow> NextResponse" where
  "NextResponse_json b st = \<lparr> status_code = st, content = b \<rparr>"

record Request =
  searchParams_include :: "string option"
  request_json :: "thrown + json"

record params =
  courseId :: string
  assignmentId :: string
  userId :: string

text \<open>
  The outer \<open>catch\<close> of every handler:
  \<open>{ error: error instanceof Error ? error.message : fallback }\<close> with status 500.
\<close>

fun caught :: "thrown \<Rightarrow> string \<Rightarrow> NextResponse" where
  "caught (Error m) fallback = NextResponse_json (JObj [(''error'', JStr m)]) 500"
| "caught (NotAnError t) fallback = NextResponse_json (JObj [(''error'', JStr fallback)]) 500"

subsection \<open>Credential resolution\<close>

text \<open>
  The block between \<open>// Get the user's Canvas settings\<close> and the 400 answer is the same
  text in every Canvas route handler (courses, course, assignment, submissions, and GET
  and PUT of one submission). First the settings table:
  \<^verbatim>\<open>
  try {
    const { data: userSettings, error } = await supabase.from("user_settings")
      .select("canvas_url, canvas_token").eq("user_id", session.user.id).single()
    if (!error && userSettings) {
      canvasUrl = userSettings.canvas_url
      canvasToken = userSettings.canvas_token
    }
  } catch (err) { console.warn(...) }
  \<close>
\<close>

definition from_user_settings :: "world \<Rightarrow> string \<Rightarrow> string option \<times> string option" where
  "from_user_settings w uid =
     (case user_settings w uid of
        Inl err \<Rightarrow> (None, None)
      | Inr r \<Rightarrow>
          (case error r of
             Some e \<Rightarrow> (None, None)
           | None \<Rightarrow>
               (case data r of
                  None \<Rightarrow> (None, None)
                | Some userSettings \<Rightarrow> (canvas_url userSettings, canvas_token userSettings))))"

definition credentials_not_found :: NextResponse where
  "credentials_not_found =
     NextResponse_json
       (JObj [(''error'', JStr ''Canvas credentials not found. Please complete onboarding.'')]) 400"

text \<open>
  Then the metadata, and the final test:
  \<^verbatim>\<open>
  if (!canvasUrl || !canvasToken) {
    const { data: userData } = await supabase.auth.getUser()
    const userMetadata = userData.user?.user_metadata || {}
    if (userMetadata.canvas_url && userMetadata.canvas_token) {
      canvasUrl = userMetadata.canvas_url
      canvasToken = userMetadata.canvas_token
    }
  }
  if (!canvasUrl || !canvasToken) {
    return NextResponse.json({ error: "Canvas credentials not found. ..." }, { status: 400 })
  }
  \<close>
  The result is the 400 answer or the pair the client is built from.
\<close>

definition resolveCredentials ::
  "world \<Rightarrow> string \<Rightarrow> (NextResponse + string \<times> string) \<times> event list" where
  "resolveCredentials w uid =
     (let (canvasUrl0, canvasToken0) = from_user_settings w uid;
          fallback = (\<not> truthy_str canvasUrl0 \<or> \<not> truthy_str canvasToken0);
          (canvasUrl, canvasToken) =
            (if fallback then
               (let userMetadata =
                      (case getUser w of
                         None \<Rightarrow> \<lparr> meta_canvas_url = None, meta_canvas_token = None \<rparr>
                       | Some m \<Rightarrow> m)
                in if truthy_str (meta_canvas_url userMetadata)
                      \<and> truthy_str (meta_canvas_token userMetadata)
                   then (meta_canvas_url userMetadata, meta_canvas_token userMetadata)
                   else (canvasUrl0, canvasToken0))
             else (canvasUrl0, canvasToken0));
          evs = CallUserSettings uid # (if fallback then [CallGetUser] else [])
      in (case canvasUrl of
            None \<Rightarrow> (Inl credentials_not_found, evs)
          | Some u \<Rightarrow>
              (case canvasToken of
                 None \<Rightarrow> (Inl credentials_not_found, evs)
               | Some t \<Rightarrow>
                   if u = [] \<or> t = [] then (Inl credentials_not_found, evs)
                   else (Inr (u, t), evs))))"

subsection \<open>GET and PUT of one submission\<close>

text \<open>The minimal user object both branches of the GET handler build.\<close>

definition minimal_user :: "string \<Rightarrow> json" where
  "minimal_user uid =
     JObj [(''id'', JStr uid),
           (''name'', JStr (''Student '' @ uid)),
           (''sortable_name'', JStr (''Student '' @ uid)),
           (''avatar_url'', JStr [])]"

text \<open>
  \<open>submission.user = {...}\<close> followed by serialising the submission. On an object the
  property is replaced or added; on an array it is set but not serialised; on a number,
  string or boolean the assignment throws (module code is strict), which is \<open>None\<close>.
\<close>

fun assign_user :: "json \<Rightarrow> json \<Rightarrow> json option" where
  "assign_user (JObj kvs) u = Some (JObj (AList.update ''user'' u kvs))"
| "assign_user (JArr xs) u = Some (JArr xs)"
| "assign_user v u = None"

fun truthy_opt :: "json option \<Rightarrow> bool" where
  "truthy_opt None = False"
| "truthy_opt (Some v) = truthy v"

text \<open>
  The body of the inner \<open>try\<close> of GET, after \<open>getSubmission\<close> has settled: the answer it
  returns, or \<open>None\<close> when control passes to \<open>catch (submissionError)\<close>.
\<close>

definition try_submission :: "thrown + json \<Rightarrow> string \<Rightarrow> NextResponse option" where
  "try_submission r uid =
     (case r of
        Inl submissionError \<Rightarrow> None
      | Inr submission \<Rightarrow>
          if \<not> truthy submission
          then Some (NextResponse_json (JObj [(''error'', JStr ''Submission not found'')]) 404)
          else if \<not> truthy_opt (property submission ''user'')
          then (case assign_user submission (minimal_user uid) of
                  None \<Rightarrow> None
                | Some submission' \<Rightarrow>
                    Some (NextResponse_json (JObj [(''submission'', submission')]) 200))
          else Some (NextResponse_json (JObj [(''submission'', submission)]) 200))"

text \<open>The \<open>catch (submissionError)\<close> block, after \<open>getAssignment\<close> has settled.\<close>

definition catch_submission :: "thrown + json \<Rightarrow> string \<Rightarrow> string \<Rightarrow> NextResponse" where
  "catch_submission r aid uid =
     (case r of
        Inr assignment \<Rightarrow>
          NextResponse_json
            (JObj [(''error'', JStr ''Failed to fetch submission details''),
                   (''assignment'', assignment),
                   (''submission'',
                      JObj [(''id'', JStr ''unknown''),
                            (''user_id'', JStr uid),
                            (''assignment_id'', JStr aid),
                            (''user'', minimal_user uid)])])
            200
      | Inl assignmentError \<Rightarrow>
          NextResponse_json
            (JObj [(''error'', JStr ''Failed to fetch submission and assignment details'')]) 404)"

text \<open>
  \<open>url.searchParams.get("include")?.split(",") || ["user", "submission_comments"]\<close>:
  an array is truthy, so the default is taken only when the parameter is missing.
\<close>

definition submission_include :: "Request \<Rightarrow> string list" where
  "submission_include req =
     (case searchParams_include req of
        None \<Rightarrow> [''user'', ''submission_comments'']
      | Some v \<Rightarrow> split_comma v)"

definition required_ids :: NextResponse where
  "required_ids =
     NextResponse_json
       (JObj [(''error'', JStr ''Course ID, Assignment ID, and User ID are required'')]) 400"

definition unauthorized :: NextResponse where
  "unauthorized = NextResponse_json (JObj [(''error'', JStr ''Unauthorized'')]) 401"

text \<open>
  GET. The identity provider's calls report failure in their result, so nothing in the
  body reaches the outer \<open>catch\<close>: every Canvas call is inside the inner \<open>try\<close>.
\<close>

definition GET_submission :: "world \<Rightarrow> Request \<Rightarrow> params \<Rightarrow> NextResponse \<times> event list" where
  "GET_submission w req ps =
     (if courseId ps = [] \<or> assignmentId ps = [] \<or> userId ps = [] then (required_ids, [])
      else (case getSession w of
              None \<Rightarrow> (unauthorized, [CallGetSession])
            | Some uid \<Rightarrow>
                (case resolveCredentials w uid of
                   (Inl r, evs) \<Rightarrow> (r, CallGetSession # evs)
                 | (Inr (canvasUrl, canvasToken), evs) \<Rightarrow>
                     (let include = submission_include req;
                          canvasApi = createCanvasApiClient canvasUrl canvasToken;
                          (r1, evs1) = getSubmission w canvasApi (courseId ps) (assignmentId ps)
                                         (userId ps) (Some include)
                      in (case try_submission r1 (userId ps) of
                            Some resp \<Rightarrow> (resp, CallGetSession # evs @ evs1)
                          | None \<Rightarrow>
                              (let (r2, evs2) = getAssignment w canvasApi (courseId ps)
                                                  (assignmentId ps)
                               in (catch_submission r2 (assignmentId ps) (userId ps),
                                   CallGetSession # evs @ evs1 @ evs2)))))))"

text \<open>
  PUT. \<open>await request.json()\<close> is outside the inner \<open>try\<close>: a body that does not parse
  is answered by the outer \<open>catch\<close>.
\<close>

definition PUT_submission :: "world \<Rightarrow> Request \<Rightarrow> params \<Rightarrow> NextResponse \<times> event list" where
  "PUT_submission w req ps =
     (if courseId ps = [] \<or> assignmentId ps = [] \<or> userId ps = [] then (required_ids, [])
      else (case getSession w of
              None \<Rightarrow> (unauthorized, [CallGetSession])
            | Some uid \<Rightarrow>
                (case resolveCredentials w uid of
                   (Inl r, evs) \<Rightarrow> (r, CallGetSession # evs)
                 | (Inr (canvasUrl, canvasToken), evs) \<Rightarrow>
                     (case request_json req of
                        Inl err \<Rightarrow>
                          (caught err ''An unexpected error occurred'', CallGetSession # evs)
                      | Inr b \<Rightarrow>
                          (let canvasApi = createCanvasApiClient canvasUrl canvasToken;
                               (r, evs1) = updateSubmissionGrade w canvasApi (courseId ps)
                                             (assignmentId ps) (userId ps) b
                           in (case r of
                                 Inr updatedSubmission \<Rightarrow>
                                   (NextResponse_json
                                      (JObj [(''submission'', updatedSubmission)]) 200,
                                    CallGetSession # evs @ evs1)
                               | Inl err \<Rightarrow>
                                   (caught err ''Failed to update submission grade'',
                                    CallGetSession # evs @ evs1)))))))"

subsection \<open>POST ai/grade-submission\<close>

text \<open>
  The template literal of the prompt, line by line, for the five interpolated texts;
  every line, the empty first one included, ends with a newline.
\<close>

definition prompt_lines :: "string \<Rightarrow> string \<Rightarrow> string \<Rightarrow> string \<Rightarrow> string \<Rightarrow> string" where
  \<open>prompt_lines description points rubricPart submission outOf =
     concat (map (\<lambda>l. l @ [CHR 0x0A])
       [[],
        ''You are an expert educational assistant helping a teacher grade a student submission.'',
        [],
        ''ASSIGNMENT DESCRIPTION:'',
        description,
        [],
        ''POINTS POSSIBLE: '' @ points,
        [],
        rubricPart,
        [],
        ''STUDENT SUBMISSION:'',
        submission,
        [],
        ''Please provide a comprehensive evaluation of this submission. Your response should include:'',
        [],
        ''1. A suggested grade (out of '' @ outOf @ '' points)'',
        ''2. Detailed feedback explaining the grade, highlighting strengths and areas for improvement'',
        ''3. Specific references to the submission content to justify your evaluation'',
        ''4. Constructive suggestions for improvement'',
        [],
        ''Format your response as a JSON object with the following structure:'',
        ''{'',
        ''  "grade": number,'',
        ''  "feedback": "detailed feedback text",'',
        ''  "strengths": ["strength1", "strength2", ...],'',
        ''  "areasForImprovement": ["area1", "area2", ...],'',
        ''  "summary": "brief summary of evaluation"'',
        ''}''])\<close>

text \<open>
  The interpolations, evaluated from left to right; each goes through \<open>String\<close>, and the
  first one that throws ends the evaluation:
  \<open>${assignmentDescription}\<close>, \<open>${pointsPossible || "Not specified"}\<close>,
  \<open>${rubric ? `RUBRIC:\n${rubric}` : ""}\<close>, \<open>${submissionContent}\<close> and
  \<open>${pointsPossible || 100}\<close>.
\<close>

definition and_then :: "thrown + string \<Rightarrow> (string \<Rightarrow> thrown + string) \<Rightarrow> thrown + string" where
  "and_then r f = (case r of Inl e \<Rightarrow> Inl e | Inr v \<Rightarrow> f v)"

definition or_default :: "(int \<Rightarrow> string) \<Rightarrow> json option \<Rightarrow> string \<Rightarrow> thrown + string" where
  "or_default num v d =
     (case v of
        None \<Rightarrow> Inr d
      | Some p \<Rightarrow> if truthy p then js_String num p else Inr d)"

definition rubric_part :: "(int \<Rightarrow> string) \<Rightarrow> json option \<Rightarrow> thrown + string" where
  "rubric_part num rubric =
     (case rubric of
        None \<Rightarrow> Inr []
      | Some r \<Rightarrow>
          if truthy r
          then and_then (js_String num r) (\<lambda>t. Inr (''RUBRIC:'' @ [CHR 0x0A] @ t))
          else Inr [])"

definition prompt_text ::
  "world \<Rightarrow> json \<Rightarrow> json \<Rightarrow> json option \<Rightarrow> json option \<Rightarrow> thrown + string" where
  "prompt_text w assignmentDescription submissionContent pointsPossible rubric =
     and_then (js_String (Number_toString w) assignmentDescription) (\<lambda>description.
     and_then (or_default (Number_toString w) pointsPossible ''Not specified'') (\<lambda>points.
     and_then (rubric_part (Number_toString w) rubric) (\<lambda>rubricPart.
     and_then (js_String (Number_toString w) submissionContent) (\<lambda>submission.
     and_then (or_default (Number_toString w) pointsPossible ''100'') (\<lambda>outOf.
       Inr (prompt_lines description points rubricPart submission outOf))))))"

text \<open>
  The handler. It never reads the session. Destructuring \<open>null\<close> throws a \<open>TypeError\<close>
  (the message is the engine's); destructuring any other value that is not an object
  gives \<open>undefined\<close> for every field. A prompt that cannot be built throws before the
  model is called, and the outer \<open>catch\<close> answers.
  \<^verbatim>\<open>
  const body = await request.json()
  const { assignmentDescription, submissionContent, pointsPossible, rubric } = body
  if (!assignmentDescription || !submissionContent) { return ... 400 }
  const prompt = ...
  const { text } = await generateText({ model: openai("gpt-4o"), prompt, ... })
  try {
    const grading = JSON.parse(text)
    return NextResponse.json(grading)
  } catch (error) {
    return NextResponse.json({ error: "Failed to parse AI response", rawResponse: text }, { status: 500 })
  }
  \<close>
\<close>

definition destructure_null :: thrown where
  "destructure_null =
     Error ''Cannot destructure property 'assignmentDescription' of 'body' as it is null.''"

definition content_required :: NextResponse where
  "content_required =
     NextResponse_json
       (JObj [(''error'', JStr ''Assignment description and submission content are required'')])
       400"

definition POST_grade_submission :: "world \<Rightarrow> Request \<Rightarrow> NextResponse \<times> event list" where
  "POST_grade_submission w req =
     (case request_json req of
        Inl err \<Rightarrow> (caught err ''An unexpected error occurred'', [])
      | Inr b \<Rightarrow>
          if b = JNull then (caught destructure_null ''An unexpected error occurred'', [])
          else
            (case property b ''assignmentDescription'' of
               None \<Rightarrow> (content_required, [])
             | Some assignmentDescription \<Rightarrow>
                 (case property b ''submissionContent'' of
                    None \<Rightarrow> (content_required, [])
                  | Some submissionContent \<Rightarrow>
                      if \<not> truthy assignmentDescription \<or> \<not> truthy submissionContent
                      then (content_required, [])
                      else
                        (case prompt_text w assignmentDescription submissionContent
                                (property b ''pointsPossible'') (property b ''rubric'') of
                           Inl err \<Rightarrow> (caught err ''An unexpected error occurred'', [])
                         | Inr prompt \<Rightarrow>
                             (case generateText w prompt of
                                Inl err \<Rightarrow>
                                  (caught err ''An unexpected error occurred'',
                                   [CallGenerateText prompt])
                              | Inr text \<Rightarrow>
                                  (case JSON_parse w text of
                                     Inr grading \<Rightarrow>
                                       (NextResponse_json grading 200, [CallGenerateText prompt])
                                   | Inl err \<Rightarrow>
                                       (NextResponse_json
                                          (JObj [(''error'', JStr ''Failed to parse AI response''),
                                                 (''rawResponse'', JStr text)])
                                          500,
                                        [CallGenerateText prompt])))))))"

section \<open>Concrete worlds\<close>

text \<open>
  A teacher whose settings row holds \<open>foo.edu\<close> and a token, and whose metadata holds
  another pair. Canvas answers for assignment 2 of course 1 and for the submission of
  user 8; every other request fails at the network. The model's answer is not JSON.
\<close>

definition campus :: world where
  "campus =
     \<lparr> getSession = Some ''teacher-1'',
       user_settings = (\<lambda>uid. Inr \<lparr> data = Some \<lparr> canvas_url = Some ''foo.edu'',
                                                    canvas_token = Some ''tok'' \<rparr>,
                                     error = None \<rparr>),
       getUser = Some \<lparr> meta_canvas_url = Some ''https://meta.edu'',
                        meta_canvas_token = Some ''mtok'' \<rparr>,
       fetch = (\<lambda>r. if req_url r = ''https://foo.edu/api/v1/courses/1/assignments/2''
                     then Inr \<lparr> ok = True, status = 200, statusText = ''OK'',
                                json_body = Inr (JObj [(''id'', JNum 2)]) \<rparr>
                     else if req_url r = ''https://foo.edu/api/v1/courses/1/assignments/2/submissions/8?include=user''
                     then Inr \<lparr> ok = True, status = 200, statusText = ''OK'',
                                json_body = Inr (JObj [(''id'', JNum 5), (''score'', JNum 9)]) \<rparr>
                     else Inl (Error ''Failed to fetch'')),
       generateText = (\<lambda>p. Inr ''Grade: 90''),
       JSON_parse = (\<lambda>t. if t = ''{}'' then Inr (JObj []) else Inl (Error ''Unexpected token'')),
       JSON_stringify = (\<lambda>v. ''{}''),
       Number_toString = (\<lambda>n. if n < 0 then CHR ''-'' # decimal (nat (- n))
                              else decimal (nat n)),
       urlencoded = (\<lambda>v. v) \<rparr>"

text \<open>
  The same teacher before onboarding: the settings query finds no row, and the
  metadata holds a URL without a token.
\<close>

definition newcomer :: world where
  "newcomer =
     campus \<lparr> user_settings := (\<lambda>uid. Inr \<lparr> data = None, error = Some ''PGRST116'' \<rparr>),
              getUser := Some \<lparr> meta_canvas_url = Some ''foo.edu'', meta_canvas_token = None \<rparr> \<rparr>"

text \<open>
  The settings row holds an empty URL beside a token.
\<close>

definition blank_url :: world where
  "blank_url =
     campus \<lparr> user_settings :=
                (\<lambda>uid. Inr \<lparr> data = Some \<lparr> canvas_url = Some [], canvas_token = Some ''tok'' \<rparr>,
                              error = None \<rparr>) \<rparr>"

text \<open>
  The URL is only in the settings row and the token only in the metadata.
\<close>

definition split_sources :: world where
  "split_sources =
     campus \<lparr> user_settings :=
                (\<lambda>uid. Inr \<lparr> data = Some \<lparr> canvas_url = Some ''foo.edu'', canvas_token = None \<rparr>,
                              error = None \<rparr>),
              getUser := Some \<lparr> meta_canvas_url = None, meta_canvas_token = Some ''mtok'' \<rparr> \<rparr>"

section \<open>Facts about strings and URL normalisation\<close>

lemma startsWith_append: "startsWith (p @ s) p"
  by (simp add: startsWith_def)

lemma startsWith_append_right:
  assumes "startsWith s p"
  shows "startsWith (s @ t) p"
proof -
  from assms have "length (take (length p) s) = length p"
    by (simp add: startsWith_def)
  then have "length p \<le> length s"
    by simp
  with assms show ?thesis
    by (simp add: startsWith_def)
qed

lemma endsWith_append: "endsWith (s @ p) p"
  by (simp add: endsWith_def)

lemma endsWith_prepend:
  assumes "endsWith s p"
  shows "endsWith (q @ s) p"
proof -
  from assms have len: "length p \<le> length s" and d: "drop (length s - length p) s = p"
    by (simp_all add: endsWith_def)
  have "drop (length (q @ s) - length p) (q @ s) = drop (length s - length p) s"
    using len by simp
  with len d show ?thesis
    by (simp add: endsWith_def)
qed

lemma endsWith_slash_last: "endsWith s ''/'' \<longleftrightarrow> s \<noteq> [] \<and> last s = CHR ''/''"
  by (cases s rule: rev_cases) (simp_all add: endsWith_def)

lemma endsWith_two_slashes_snoc: "endsWith (s @ ''/'') ''//'' \<longleftrightarrow> endsWith s ''/''"
  by (cases s rule: rev_cases) (simp_all add: endsWith_def)

lemma endsWith_two_slashes_one: "endsWith s ''//'' \<Longrightarrow> endsWith s ''/''"
proof (cases s rule: rev_cases)
  case Nil
  assume "endsWith s ''//''"
  with Nil show ?thesis by (simp add: endsWith_def)
next
  case (snoc ys y)
  assume "endsWith s ''//''"
  with snoc show ?thesis
    by (cases ys rule: rev_cases) (simp_all add: endsWith_def)
qed

lemma replace_leading_slash_drop:
  "replace_leading_slash endpoint = (if startsWith endpoint ''/'' then drop 1 endpoint else endpoint)"
  by (cases endpoint) (simp_all add: startsWith_def)

lemma normalizeCanvasUrl_has_scheme:
  "startsWith (normalizeCanvasUrl url) ''http://'' \<or> startsWith (normalizeCanvasUrl url) ''https://''"
proof (cases "startsWith url ''http://'' \<or> startsWith url ''https://''")
  case True
  then have "normalizeCanvasUrl url = url \<or> normalizeCanvasUrl url = url @ ''/''"
    unfolding normalizeCanvasUrl_def Let_def by presburger
  with True show ?thesis
    using startsWith_append_right [of url _ "''/''"] by metis
next
  case False
  then have "normalizeCanvasUrl url = ''https://'' @ url
     \<or> normalizeCanvasUrl url = (''https://'' @ url) @ ''/''"
    unfolding normalizeCanvasUrl_def Let_def by presburger
  moreover have "startsWith (''https://'' @ url) ''https://''"
    by (rule startsWith_append)
  ultimately show ?thesis
    using startsWith_append_right [of "''https://'' @ url" "''https://''" "''/''"] by metis
qed

lemma normalizeCanvasUrl_ends_slash: "endsWith (normalizeCanvasUrl url) ''/''"
proof -
  have "endsWith (u @ ''/'') ''/''" for u
    by (rule endsWith_append)
  then show ?thesis
    unfolding normalizeCanvasUrl_def Let_def by presburger
qed

lemma normalizeCanvasUrl_fixed:
  "(startsWith u ''http://'' \<or> startsWith u ''https://'') \<Longrightarrow> endsWith u ''/''
     \<Longrightarrow> normalizeCanvasUrl u = u"
  unfolding normalizeCanvasUrl_def Let_def by presburger

lemma normalizeCanvasUrl_one_slash:
  assumes "canvasUrl \<noteq> []" "\<not> endsWith canvasUrl ''/''"
  shows "\<not> endsWith (normalizeCanvasUrl canvasUrl) ''//''"
proof -
  have no: "\<not> endsWith (q @ canvasUrl) ''/''" for q
    using assms by (simp add: endsWith_slash_last)
  from no [of "[]"] no [of "''https://''"]
  have "normalizeCanvasUrl canvasUrl = canvasUrl @ ''/''
      \<or> normalizeCanvasUrl canvasUrl = (''https://'' @ canvasUrl) @ ''/''"
    unfolding normalizeCanvasUrl_def Let_def by (simp only: append_Nil) presburger
  then show ?thesis
    using no [of "[]"] no [of "''https://''"] endsWith_two_slashes_snoc
    by (metis append_Nil)
qed

lemma normalizeCanvasUrl_keeps_slashes:
  assumes "endsWith canvasUrl ''//''"
  shows "endsWith (normalizeCanvasUrl canvasUrl) ''//''"
proof -
  have one: "endsWith (q @ canvasUrl) ''/''" for q
    using assms endsWith_two_slashes_one endsWith_prepend by blast
  from one [of "[]"] one [of "''https://''"]
  have "normalizeCanvasUrl canvasUrl = canvasUrl
      \<or> normalizeCanvasUrl canvasUrl = ''https://'' @ canvasUrl"
    unfolding normalizeCanvasUrl_def Let_def by (simp only: append_Nil) presburger
  then show ?thesis
    using assms endsWith_prepend [OF assms, of "''https://''"] by metis
qed

lemma normalizeCanvasUrl_shape:
  "normalizeCanvasUrl canvasUrl =
     (if startsWith canvasUrl ''http://'' \<or> startsWith canvasUrl ''https://'' then []
      else ''https://'')
     @ canvasUrl
     @ (if canvasUrl \<noteq> [] \<and> \<not> endsWith canvasUrl ''/'' then ''/'' else [])"
proof (cases "canvasUrl = []")
  case True
  then show ?thesis
    by (simp add: normalizeCanvasUrl_def startsWith_def endsWith_def)
next
  case False
  then have same: "endsWith (q @ canvasUrl) ''/'' \<longleftrightarrow> endsWith canvasUrl ''/''" for q
    by (simp add: endsWith_slash_last)
  show ?thesis
  proof (cases "startsWith canvasUrl ''http://'' \<or> startsWith canvasUrl ''https://''")
    case True
    then have "normalizeCanvasUrl canvasUrl =
        (if \<not> endsWith canvasUrl ''/'' then canvasUrl @ ''/'' else canvasUrl)"
      unfolding normalizeCanvasUrl_def Let_def by presburger
    with True False show ?thesis
      by (simp only: if_True if_False append_Nil append_Nil2 simp_thms split: if_splits)
  next
    case noscheme: False
    then have "normalizeCanvasUrl canvasUrl =
        (if \<not> endsWith (''https://'' @ canvasUrl) ''/'' then (''https://'' @ canvasUrl) @ ''/''
         else ''https://'' @ canvasUrl)"
      unfolding normalizeCanvasUrl_def Let_def by presburger
    with noscheme False same [of "''https://''"] show ?thesis
      by (simp only: if_True if_False append_Nil append_Nil2 append_assoc simp_thms
            split: if_splits)
  qed
qed

section \<open>Facts about the client and the handlers\<close>

text \<open>
  The definitions a concrete run unfolds.
\<close>

lemmas eval_defs =
  campus_def GET_submission_def PUT_submission_def resolveCredentials_def from_user_settings_def
  getSubmission_def getAssignment_def updateSubmissionGrade_def request_def request_url_def
  request_headers_def createCanvasApiClient_def normalizeCanvasUrl_def startsWith_def
  endsWith_def include_query_def submission_include_def no_options_def enhancedError_def
  try_submission_def catch_submission_def NextResponse_json_def minimal_user_def
  credentials_not_found_def required_ids_def unauthorized_def Let_def

lemma update_absent:
  "map_of kvs k = None \<Longrightarrow> AList.update k v kvs = kvs @ [(k, v)]"
  by (induction kvs) (auto split: if_splits)

lemma map_of_snoc_absent:
  "map_of kvs k = None \<Longrightarrow> map_of (kvs @ [(k, v)]) k = Some v"
  by (induction kvs) (auto split: if_splits)

lemma request_events:
  "snd (request w c endpoint options throwOnError) =
     [CallFetch \<lparr> req_url = request_url c endpoint, req_method = opt_method options,
                  req_headers = request_headers c options, req_body = opt_body options \<rparr>]"
  by (simp add: request_def Let_def)

lemma from_user_settings_row:
  assumes "from_user_settings w uid = (Some u, Some t)"
  shows "\<exists>row. user_settings w uid = Inr \<lparr> data = Some row, error = None \<rparr>
           \<and> canvas_url row = Some u \<and> canvas_token row = Some t"
proof -
  from assms obtain r row where r: "user_settings w uid = Inr r" "error r = None"
      "data r = Some row" "canvas_url row = Some u" "canvas_token row = Some t"
    by (auto simp: from_user_settings_def split: sum.splits option.splits)
  have "r = \<lparr> data = Some row, error = None \<rparr>"
    using r(2,3) by (cases r) simp
  with r show ?thesis
    by blast
qed

lemma from_user_settings_of_row:
  assumes "user_settings w uid = Inr \<lparr> data = Some row, error = None \<rparr>"
  shows "from_user_settings w uid = (canvas_url row, canvas_token row)"
  using assms by (simp add: from_user_settings_def)

lemma resolveCredentials_none:
  assumes "\<not> (\<exists>row u t. user_settings w uid = Inr \<lparr> data = Some row, error = None \<rparr>
             \<and> canvas_url row = Some u \<and> canvas_token row = Some t \<and> u \<noteq> [] \<and> t \<noteq> [])"
    and "\<not> (\<exists>m u t. getUser w = Some m \<and> meta_canvas_url m = Some u
             \<and> meta_canvas_token m = Some t \<and> u \<noteq> [] \<and> t \<noteq> [])"
  shows "resolveCredentials w uid = (Inl credentials_not_found, [CallUserSettings uid, CallGetUser])"
proof -
  obtain a b where fs: "from_user_settings w uid = (a, b)"
    by (cases "from_user_settings w uid")
  have nofs: "\<not> (truthy_str a \<and> truthy_str b)"
  proof
    assume t: "truthy_str a \<and> truthy_str b"
    then obtain u t where ab: "a = Some u" "b = Some t" "u \<noteq> []" "t \<noteq> []"
      by (cases a; cases b) auto
    with fs obtain row where "user_settings w uid = Inr \<lparr> data = Some row, error = None \<rparr>"
      "canvas_url row = Some u" "canvas_token row = Some t"
      by (auto simp: from_user_settings_def split: sum.splits option.splits)
    with ab assms(1) show False by blast
  qed
  have nometa: "\<not> (truthy_str (meta_canvas_url m) \<and> truthy_str (meta_canvas_token m))"
    if "getUser w = Some m" for m
  proof
    assume "truthy_str (meta_canvas_url m) \<and> truthy_str (meta_canvas_token m)"
    then obtain u t where "meta_canvas_url m = Some u" "meta_canvas_token m = Some t"
      "u \<noteq> []" "t \<noteq> []"
      by (cases "meta_canvas_url m"; cases "meta_canvas_token m") auto
    with that assms(2) show False by blast
  qed
  show ?thesis
  proof (cases "getUser w")
    case None
    with fs nofs show ?thesis
      by (cases a; cases b) (auto simp: resolveCredentials_def Let_def)
  next
    case (Some m)
    with fs nofs nometa [OF Some] show ?thesis
      by (cases a; cases b) (auto simp: resolveCredentials_def Let_def)
  qed
qed

lemma GET_submission_unfold:
  assumes "courseId ps \<noteq> []" "assignmentId ps \<noteq> []" "userId ps \<noteq> []"
    and "getSession w = Some uid"
    and "resolveCredentials w uid = (Inr (canvasUrl, canvasToken), evs)"
    and "getSubmission w (createCanvasApiClient canvasUrl canvasToken) (courseId ps)
           (assignmentId ps) (userId ps) (Some (submission_include req)) = (r1, evs1)"
  shows "GET_submission w req ps =
     (case try_submission r1 (userId ps) of
        Some resp \<Rightarrow> (resp, CallGetSession # evs @ evs1)
      | None \<Rightarrow>
          (catch_submission
             (fst (getAssignment w (createCanvasApiClient canvasUrl canvasToken) (courseId ps)
                (assignmentId ps))) (assignmentId ps) (userId ps),
           CallGetSession # evs @ evs1 @
             snd (getAssignment w (createCanvasApiClient canvasUrl canvasToken) (courseId ps)
                (assignmentId ps))))"
  using assms
  by (simp add: GET_submission_def Let_def split: option.splits prod.splits)

lemma caught_status: "status_code (caught e d) = 500"
  by (cases e) (simp_all add: NextResponse_json_def)

lemma content_required_status: "status_code content_required = 400"
  by (simp add: content_required_def NextResponse_json_def)

lemma js_String_primitive: "\<not> is_object v \<Longrightarrow> \<exists>t. js_String num v = Inr t"
  by (cases v) simp_all

lemma or_default_primitive:
  assumes "\<forall>p. v = Some p \<longrightarrow> \<not> is_object p"
  shows "\<exists>t. or_default num v d = Inr t"
proof (cases v)
  case None
  then show ?thesis by (simp add: or_default_def)
next
  case (Some p)
  with assms js_String_primitive [of p num] show ?thesis
    by (auto simp: or_default_def)
qed

lemma rubric_part_primitive:
  assumes "\<forall>r. v = Some r \<longrightarrow> \<not> is_object r"
  shows "\<exists>t. rubric_part num v = Inr t"
proof (cases v)
  case None
  then show ?thesis by (simp add: rubric_part_def)
next
  case (Some r)
  with assms js_String_primitive [of r num] show ?thesis
    by (auto simp: rubric_part_def and_then_def)
qed

lemma prompt_text_primitive:
  assumes "\<not> is_object ad" "\<not> is_object sc"
    and "\<forall>p. pp = Some p \<longrightarrow> \<not> is_object p"
    and "\<forall>r. ru = Some r \<longrightarrow> \<not> is_object r"
  shows "\<exists>prompt. prompt_text w ad sc pp ru = Inr prompt"
proof -
  obtain a where a: "js_String (Number_toString w) ad = Inr a"
    using js_String_primitive [OF assms(1)] by blast
  obtain c where c: "js_String (Number_toString w) sc = Inr c"
    using js_String_primitive [OF assms(2)] by blast
  obtain p1 where p1: "or_default (Number_toString w) pp ''Not specified'' = Inr p1"
    using or_default_primitive [OF assms(3)] by blast
  obtain p2 where p2: "or_default (Number_toString w) pp ''100'' = Inr p2"
    using or_default_primitive [OF assms(3)] by blast
  obtain r where r: "rubric_part (Number_toString w) ru = Inr r"
    using rubric_part_primitive [OF assms(4)] by blast
  show ?thesis
    by (simp add: prompt_text_def and_then_def a c p1 p2 r)
qed

lemma prompt_text_getSession:
  "prompt_text (w\<lparr>getSession := s\<rparr>) ad sc pp ru = prompt_text w ad sc pp ru"
  by (simp add: prompt_text_def)

lemma POST_grade_submission_unfold:
  assumes "request_json req = Inr b"
    and "property b ''assignmentDescription'' = Some ad" "truthy ad"
    and "property b ''submissionContent'' = Some sc" "truthy sc"
  shows "POST_grade_submission w req =
     (case prompt_text w ad sc (property b ''pointsPossible'') (property b ''rubric'') of
        Inl err \<Rightarrow> (caught err ''An unexpected error occurred'', [])
      | Inr prompt \<Rightarrow>
          (case generateText w prompt of
             Inl err \<Rightarrow> caught err ''An unexpected error occurred''
           | Inr text \<Rightarrow>
               (case JSON_parse w text of
                  Inr grading \<Rightarrow> NextResponse_json grading 200
                | Inl err \<Rightarrow>
                    NextResponse_json
                      (JObj [(''error'', JStr ''Failed to parse AI response''),
                             (''rawResponse'', JStr text)]) 500),
           [CallGenerateText prompt]))"
proof -
  from assms(2) have "b \<noteq> JNull"
    by (cases b) auto
  with assms show ?thesis
    by (simp add: POST_grade_submission_def split: sum.splits)
qed

lemma POST_grade_submission_cases:
  "(\<exists>e. POST_grade_submission w req = (caught e ''An unexpected error occurred'', []))
   \<or> POST_grade_submission w req = (content_required, [])
   \<or> (\<exists>b ad sc. request_json req = Inr b
         \<and> property b ''assignmentDescription'' = Some ad \<and> truthy ad
         \<and> property b ''submissionContent'' = Some sc \<and> truthy sc)"
proof (cases "request_json req")
  case (Inl e)
  then have "POST_grade_submission w req = (caught e ''An unexpected error occurred'', [])"
    by (simp add: POST_grade_submission_def)
  then show ?thesis by blast
next
  case (Inr b)
  show ?thesis
  proof (cases "b = JNull")
    case True
    with Inr have "POST_grade_submission w req =
        (caught destructure_null ''An unexpected error occurred'', [])"
      by (simp add: POST_grade_submission_def)
    then show ?thesis by blast
  next
    case False
    show ?thesis
    proof (cases "property b ''assignmentDescription''")
      case None
      with Inr False show ?thesis
        by (simp add: POST_grade_submission_def)
    next
      case ad: (Some ad)
      show ?thesis
      proof (cases "property b ''submissionContent''")
        case None
        with Inr False ad show ?thesis
          by (simp add: POST_grade_submission_def)
      next
        case sc: (Some sc)
        show ?thesis
        proof (cases "truthy ad \<and> truthy sc")
          case True
          with Inr ad sc show ?thesis by blast
        next
          case no: False
          have "POST_grade_submission w req = (content_required, [])"
            using Inr False ad sc no
            by (simp add: POST_grade_submission_def del: truthy.simps)
          then show ?thesis by blast
        qed
      qed
    qed
  qed
qed

lemma POST_grade_submission_outcome:
  "(snd (POST_grade_submission w req) = []
      \<or> (\<exists>p. snd (POST_grade_submission w req) = [CallGenerateText p]))
   \<and> status_code (fst (POST_grade_submission w req)) \<in> {200, 400, 500}"
proof -
  consider
      (thrown) e where "POST_grade_submission w req = (caught e ''An unexpected error occurred'', [])"
    | (required) "POST_grade_submission w req = (content_required, [])"
    | (model) b ad sc where "request_json req = Inr b"
        "property b ''assignmentDescription'' = Some ad" "truthy ad"
        "property b ''submissionContent'' = Some sc" "truthy sc"
    using POST_grade_submission_cases [of w req] by blast
  then show ?thesis
  proof cases
    case thrown
    then show ?thesis by (simp add: caught_status)
  next
    case required
    then show ?thesis by (simp add: content_required_status)
  next
    case model
    show ?thesis
      unfolding POST_grade_submission_unfold [OF model, of w]
      by (simp add: caught_status NextResponse_json_def split: sum.splits)
  qed
qed

lemma POST_grade_submission_getSession:
  "POST_grade_submission (w\<lparr>getSession := s\<rparr>) req = POST_grade_submission w req"
proof -
  consider
      (thrown) e where "POST_grade_submission w req = (caught e ''An unexpected error occurred'', [])"
        "\<not> (\<exists>b ad sc. request_json req = Inr b
         \<and> property b ''assignmentDescription'' = Some ad \<and> truthy ad
         \<and> property b ''submissionContent'' = Some sc \<and> truthy sc)"
    | (required) "POST_grade_submission w req = (content_required, [])"
        "\<not> (\<exists>b ad sc. request_json req = Inr b
         \<and> property b ''assignmentDescription'' = Some ad \<and> truthy ad
         \<and> property b ''submissionContent'' = Some sc \<and> truthy sc)"
    | (model) b ad sc where "request_json req = Inr b"
        "property b ''assignmentDescription'' = Some ad" "truthy ad"
        "property b ''submissionContent'' = Some sc" "truthy sc"
    using POST_grade_submission_cases [of w req] by blast
  then show ?thesis
  proof cases
    case model
    show ?thesis
      unfolding POST_grade_submission_unfold [OF model]
      by (simp add: prompt_text_getSession cong: sum.case_cong)
  next
    case thrown
    show ?thesis
      by (simp add: POST_grade_submission_def prompt_text_getSession
            cong: sum.case_cong option.case_cong if_cong)
  next
    case required
    show ?thesis
      by (simp add: POST_grade_submission_def prompt_text_getSession
            cong: sum.case_cong option.case_cong if_cong)
  qed
qed

section \<open>Claims about URL normalisation and the request URL\<close>

text \<open>
  C7. \<open>normalizeCanvasUrl\<close> maps \<open>foo.edu\<close>, \<open>https://foo.edu\<close> and \<open>https://foo.edu/\<close>
  to \<open>https://foo.edu/\<close>, and applying it twice gives the same result as applying it once,
  for every input.
\<close>

theorem normalizeCanvasUrl_examples_idempotent:
  "normalizeCanvasUrl ''foo.edu'' = ''https://foo.edu/''
   \<and> normalizeCanvasUrl ''https://foo.edu'' = ''https://foo.edu/''
   \<and> normalizeCanvasUrl ''https://foo.edu/'' = ''https://foo.edu/''
   \<and> normalizeCanvasUrl (normalizeCanvasUrl url) = normalizeCanvasUrl url"
proof -
  have e1: "normalizeCanvasUrl ''foo.edu'' = ''https://foo.edu/''"
    by (simp add: normalizeCanvasUrl_def startsWith_def endsWith_def)
  have e2: "normalizeCanvasUrl ''https://foo.edu'' = ''https://foo.edu/''"
    by (simp add: normalizeCanvasUrl_def startsWith_def endsWith_def)
  have e3: "normalizeCanvasUrl ''https://foo.edu/'' = ''https://foo.edu/''"
    by (simp add: normalizeCanvasUrl_def startsWith_def endsWith_def)
  have idem: "normalizeCanvasUrl (normalizeCanvasUrl url) = normalizeCanvasUrl url"
    using normalizeCanvasUrl_has_scheme [of url] normalizeCanvasUrl_ends_slash [of url]
    by (rule normalizeCanvasUrl_fixed)
  from e1 e2 e3 idem show ?thesis by blast
qed

text \<open>
  C3, as stated, fails: a base URL that ends in two slashes keeps both, so the request URL
  has two slashes before \<open>api/v1/\<close>; and an endpoint that begins with a slash loses
  that slash, so the URL is not the plain concatenation.
\<close>

theorem request_url_slashes_counterexample:
  "normalizeCanvasUrl ''foo.edu//'' = ''https://foo.edu//''
   \<and> request_url (createCanvasApiClient ''foo.edu//'' ''tok'') ''courses''
       = ''https://foo.edu//api/v1/courses''
   \<and> request_url (createCanvasApiClient ''foo.edu'' ''tok'') ''/courses''
       \<noteq> normalizeCanvasUrl ''foo.edu'' @ ''api/v1/'' @ ''/courses''"
  by (simp add: request_url_def createCanvasApiClient_def normalizeCanvasUrl_def
        startsWith_def endsWith_def)

text \<open>
  C3, amended. For every base URL and endpoint the request URL is
  \<open>normalizeCanvasUrl baseUrl\<close>, then \<open>api/v1/\<close>, then the endpoint with its first
  character dropped when that is a slash (the endpoint itself otherwise). The normalised
  base URL is the input, with \<open>https://\<close> in front when it has no scheme, and with one
  slash behind when it is non-empty and does not end with a slash; nothing else is added
  or removed. So it always begins with a scheme and ends with a slash, a non-empty input
  without a trailing slash gets exactly one, and an input that ends with slashes keeps
  them as they are.
\<close>

theorem request_url_normalized:
  "request_url (createCanvasApiClient canvasUrl tok) endpoint
     = normalizeCanvasUrl canvasUrl @ ''api/v1/''
       @ (if startsWith endpoint ''/'' then drop 1 endpoint else endpoint)
   \<and> normalizeCanvasUrl canvasUrl
     = (if startsWith canvasUrl ''http://'' \<or> startsWith canvasUrl ''https://'' then []
        else ''https://'')
       @ canvasUrl
       @ (if canvasUrl \<noteq> [] \<and> \<not> endsWith canvasUrl ''/'' then ''/'' else [])
   \<and> (\<not> startsWith endpoint ''/'' \<longrightarrow>
        request_url (createCanvasApiClient canvasUrl tok) endpoint
          = normalizeCanvasUrl canvasUrl @ ''api/v1/'' @ endpoint)
   \<and> endsWith (normalizeCanvasUrl canvasUrl) ''/''
   \<and> (startsWith (normalizeCanvasUrl canvasUrl) ''http://''
        \<or> startsWith (normalizeCanvasUrl canvasUrl) ''https://'')
   \<and> (canvasUrl \<noteq> [] \<and> \<not> endsWith canvasUrl ''/'' \<longrightarrow>
        \<not> endsWith (normalizeCanvasUrl canvasUrl) ''//'')
   \<and> (endsWith canvasUrl ''/'' \<longrightarrow>
        normalizeCanvasUrl canvasUrl
          = (if startsWith canvasUrl ''http://'' \<or> startsWith canvasUrl ''https://''
             then canvasUrl else ''https://'' @ canvasUrl))
   \<and> (endsWith canvasUrl ''//'' \<longrightarrow> endsWith (normalizeCanvasUrl canvasUrl) ''//'')"
proof -
  have u: "request_url (createCanvasApiClient canvasUrl tok) endpoint
     = normalizeCanvasUrl canvasUrl @ ''api/v1/''
       @ (if startsWith endpoint ''/'' then drop 1 endpoint else endpoint)"
    by (simp only: request_url_def createCanvasApiClient_def CanvasApiClient.simps
          replace_leading_slash_drop)
  then have v: "\<not> startsWith endpoint ''/'' \<longrightarrow>
        request_url (createCanvasApiClient canvasUrl tok) endpoint
          = normalizeCanvasUrl canvasUrl @ ''api/v1/'' @ endpoint"
    by presburger
  have k: "endsWith canvasUrl ''/'' \<longrightarrow>
        normalizeCanvasUrl canvasUrl
          = (if startsWith canvasUrl ''http://'' \<or> startsWith canvasUrl ''https://''
             then canvasUrl else ''https://'' @ canvasUrl)"
    using normalizeCanvasUrl_shape [of canvasUrl]
    by (simp only: if_True if_False append_Nil append_Nil2 simp_thms split: if_splits)
  from u v k normalizeCanvasUrl_shape [of canvasUrl]
    normalizeCanvasUrl_ends_slash [of canvasUrl] normalizeCanvasUrl_has_scheme [of canvasUrl]
    normalizeCanvasUrl_one_slash [of canvasUrl] normalizeCanvasUrl_keeps_slashes [of canvasUrl]
  show ?thesis by blast
qed

theorem request_url_normalized_witness:
  "request_url (createCanvasApiClient ''foo.edu/'' ''tok'') ''/courses''
     = ''https://foo.edu/api/v1/courses''
   \<and> normalizeCanvasUrl ''foo.edu/'' = ''https://foo.edu/''
   \<and> request_url (createCanvasApiClient ''foo.edu'' ''tok'') ''courses''
     = ''https://foo.edu/api/v1/courses''
   \<and> \<not> endsWith (normalizeCanvasUrl ''foo.edu'') ''//''"
proof -
  have s1: "startsWith ''/courses'' ''/''" "\<not> startsWith ''courses'' ''/''"
    by (simp_all add: startsWith_def)
  have s2: "\<not> (startsWith ''foo.edu/'' ''http://'' \<or> startsWith ''foo.edu/'' ''https://'')"
    "\<not> (startsWith ''foo.edu'' ''http://'' \<or> startsWith ''foo.edu'' ''https://'')"
    by (simp_all add: startsWith_def)
  have e: "endsWith ''foo.edu/'' ''/''" "''foo.edu'' \<noteq> [] \<and> \<not> endsWith ''foo.edu'' ''/''"
    by (simp_all add: endsWith_def)
  have a: "request_url (createCanvasApiClient ''foo.edu/'' ''tok'') ''/courses''
             = ''https://foo.edu/api/v1/courses''
           \<and> normalizeCanvasUrl ''foo.edu/'' = ''https://foo.edu/''"
    using request_url_normalized [of "''foo.edu/''" "''tok''" "''/courses''"] s1 s2 e
    by simp
  have b: "request_url (createCanvasApiClient ''foo.edu'' ''tok'') ''courses''
             = ''https://foo.edu/api/v1/courses''"
    using request_url_normalized [of "''foo.edu''" "''tok''" "''courses''"] s1 s2 e
    by simp
  have c: "\<not> endsWith (normalizeCanvasUrl ''foo.edu'') ''//''"
    using request_url_normalized [of "''foo.edu''" "''tok''" "''courses''"] e
    by blast
  from a b c show ?thesis by blast
qed

section \<open>Claims about the request primitive\<close>

text \<open>
  C2, as stated, fails: with \<open>throwOnError\<close> false a request that fails with
  \<open>Failed to fetch\<close> returns \<open>null\<close>, and so does \<open>getUserById\<close> with its default flag;
  the rewritten message does not reach the caller.
\<close>

theorem request_network_error_swallowed_counterexample:
  "fetch campus
     \<lparr> req_url = ''https://foo.edu/api/v1/users/7'', req_method = None,
       req_headers = [(''Authorization'', ''Bearer tok''), (''Accept'', ''application/json''),
                      (''Content-Type'', ''application/json'')],
       req_body = None \<rparr> = Inl (Error ''Failed to fetch'')
   \<and> fst (request campus (createCanvasApiClient ''foo.edu'' ''tok'') ''users/7'' no_options False)
       = Inr JNull
   \<and> fst (getUserById campus (createCanvasApiClient ''foo.edu'' ''tok'') ''7'' False) = Inr JNull"
  by (simp add: eval_defs getUserById_def)

text \<open>
  C2, amended. When \<open>fetch\<close> rejects with the message \<open>Failed to fetch\<close>, the request
  with \<open>throwOnError\<close> true throws an error whose message names the request URL and
  suggests checking the Canvas URL and the network connection; with \<open>throwOnError\<close> false
  it returns \<open>null\<close>.
\<close>

theorem request_network_error:
  assumes "fetch w \<lparr> req_url = request_url c endpoint, req_method = opt_method options,
                      req_headers = request_headers c options, req_body = opt_body options \<rparr>
           = Inl (Error ''Failed to fetch'')"
  shows "fst (request w c endpoint options True) =
           Inl (Error (''Network error when connecting to Canvas API at '' @ request_url c endpoint
                       @ ''. Please check your Canvas URL and network connection.''))
       \<and> fst (request w c endpoint options False) = Inr JNull"
  using assms by (simp add: request_def Let_def enhancedError_def)

theorem request_network_error_witness:
  "fst (request campus (createCanvasApiClient ''foo.edu'' ''tok'') ''users/7'' no_options True) =
     Inl (Error ''Network error when connecting to Canvas API at https://foo.edu/api/v1/users/7. Please check your Canvas URL and network connection.'')
   \<and> fst (request campus (createCanvasApiClient ''foo.edu'' ''tok'') ''users/7'' no_options False)
       = Inr JNull"
proof -
  let ?c = "createCanvasApiClient ''foo.edu'' ''tok''"
  have u: "request_url ?c ''users/7'' = ''https://foo.edu/api/v1/users/7''"
    by (simp add: eval_defs)
  have f: "fetch campus \<lparr> req_url = request_url ?c ''users/7'', req_method = opt_method no_options,
                      req_headers = request_headers ?c no_options, req_body = opt_body no_options \<rparr>
           = Inl (Error ''Failed to fetch'')"
    by (simp add: eval_defs)
  show ?thesis
    using request_network_error [OF f] u by simp
qed

section \<open>Claims about credential resolution\<close>

text \<open>
  C4, as stated, fails: a settings row whose \<open>canvas_url\<close> is the empty string (not
  \<open>null\<close>) beside a token is passed over, and the pair of the metadata is used.
\<close>

theorem resolveCredentials_empty_url_counterexample:
  "user_settings blank_url ''teacher-1'' =
     Inr \<lparr> data = Some \<lparr> canvas_url = Some [], canvas_token = Some ''tok'' \<rparr>, error = None \<rparr>
   \<and> fst (resolveCredentials blank_url ''teacher-1'') = Inr (''https://meta.edu'', ''mtok'')"
  by (simp add: blank_url_def campus_def resolveCredentials_def from_user_settings_def)

text \<open>
  C4, amended. If the settings row exists and its \<open>canvas_url\<close> and \<open>canvas_token\<close> are
  both non-null and non-empty, these two values are the resolved pair whatever the metadata
  holds, the metadata is not read, and GET of a submission sends its first Canvas request
  to the normalised URL of the row with the token of the row.
\<close>

theorem resolveCredentials_settings_first:
  assumes "user_settings w uid = Inr \<lparr> data = Some row, error = None \<rparr>"
    and "canvas_url row = Some u" "canvas_token row = Some t" "u \<noteq> []" "t \<noteq> []"
  shows "resolveCredentials w uid = (Inr (u, t), [CallUserSettings uid])
    \<and> (courseId ps \<noteq> [] \<and> assignmentId ps \<noteq> [] \<and> userId ps \<noteq> [] \<and> getSession w = Some uid
       \<longrightarrow> take 3 (snd (GET_submission w req ps)) =
           [CallGetSession, CallUserSettings uid,
            CallFetch
              \<lparr> req_url = normalizeCanvasUrl u @ ''api/v1/'' @ ''courses/'' @ courseId ps
                   @ ''/assignments/'' @ assignmentId ps @ ''/submissions/'' @ userId ps
                   @ ''?'' @ include_query w (Some (submission_include req)),
                req_method = None,
                req_headers = [(''Authorization'', ''Bearer '' @ t),
                               (''Accept'', ''application/json''),
                               (''Content-Type'', ''application/json'')],
                req_body = None \<rparr>])"
proof -
  have rc: "resolveCredentials w uid = (Inr (u, t), [CallUserSettings uid])"
    using assms by (simp add: resolveCredentials_def from_user_settings_of_row)
  have tr: "take 3 (snd (GET_submission w req ps)) =
           [CallGetSession, CallUserSettings uid,
            CallFetch
              \<lparr> req_url = normalizeCanvasUrl u @ ''api/v1/'' @ ''courses/'' @ courseId ps
                   @ ''/assignments/'' @ assignmentId ps @ ''/submissions/'' @ userId ps
                   @ ''?'' @ include_query w (Some (submission_include req)),
                req_method = None,
                req_headers = [(''Authorization'', ''Bearer '' @ t),
                               (''Accept'', ''application/json''),
                               (''Content-Type'', ''application/json'')],
                req_body = None \<rparr>]"
    if ps: "courseId ps \<noteq> []" "assignmentId ps \<noteq> []" "userId ps \<noteq> []"
      and s: "getSession w = Some uid"
  proof -
    let ?c = "createCanvasApiClient u t"
    obtain r1 evs1 where gs: "getSubmission w ?c (courseId ps) (assignmentId ps) (userId ps)
        (Some (submission_include req)) = (r1, evs1)"
      by (cases "getSubmission w ?c (courseId ps) (assignmentId ps) (userId ps)
        (Some (submission_include req))")
    have "evs1 = snd (getSubmission w ?c (courseId ps) (assignmentId ps) (userId ps)
        (Some (submission_include req)))"
      using gs by simp
    then have evs1: "evs1 =
      [CallFetch
         \<lparr> req_url = normalizeCanvasUrl u @ ''api/v1/'' @ ''courses/'' @ courseId ps
              @ ''/assignments/'' @ assignmentId ps @ ''/submissions/'' @ userId ps
              @ ''?'' @ include_query w (Some (submission_include req)),
           req_method = None,
           req_headers = [(''Authorization'', ''Bearer '' @ t),
                          (''Accept'', ''application/json''),
                          (''Content-Type'', ''application/json'')],
           req_body = None \<rparr>]"
      by (simp add: getSubmission_def request_events request_url_def request_headers_def
            createCanvasApiClient_def no_options_def)
    show ?thesis
      unfolding GET_submission_unfold [OF ps s rc gs] evs1
      by (simp split: option.splits)
  qed
  from rc tr show ?thesis by blast
qed

theorem resolveCredentials_settings_first_witness:
  "resolveCredentials campus ''teacher-1'' = (Inr (''foo.edu'', ''tok''), [CallUserSettings ''teacher-1''])
   \<and> take 3 (snd (GET_submission campus
          \<lparr> searchParams_include = None, request_json = Inl (Error ''no body'') \<rparr>
          \<lparr> courseId = ''1'', assignmentId = ''2'', userId = ''7'' \<rparr>)) =
       [CallGetSession, CallUserSettings ''teacher-1'',
        CallFetch
          \<lparr> req_url = ''https://foo.edu/api/v1/courses/1/assignments/2/submissions/7?include=user,submission_comments'',
            req_method = None,
            req_headers = [(''Authorization'', ''Bearer tok''),
                           (''Accept'', ''application/json''),
                           (''Content-Type'', ''application/json'')],
            req_body = None \<rparr>]"
proof -
  let ?row = "\<lparr> canvas_url = Some ''foo.edu'', canvas_token = Some ''tok'' \<rparr>"
  let ?ps = "\<lparr> courseId = ''1'', assignmentId = ''2'', userId = ''7'' \<rparr>"
  let ?req = "\<lparr> searchParams_include = None, request_json = Inl (Error ''no body'') \<rparr>"
  have r: "user_settings campus ''teacher-1'' = Inr \<lparr> data = Some ?row, error = None \<rparr>"
    by (simp add: campus_def)
  have s: "getSession campus = Some ''teacher-1''"
    by (simp add: campus_def)
  have n: "normalizeCanvasUrl ''foo.edu'' = ''https://foo.edu/''"
    by (simp add: normalizeCanvasUrl_def startsWith_def endsWith_def)
  have q: "include_query campus (Some (submission_include ?req)) = ''include=user,submission_comments''"
    by (simp add: include_query_def submission_include_def campus_def)
  show ?thesis
    using resolveCredentials_settings_first [OF r, of "''foo.edu''" "''tok''" ?ps ?req] s n q
    by simp
qed

text \<open>
  C10. Credential resolution never mixes its sources: it gives the 400 answer, or a pair
  of non-empty values that are both the columns of the settings row or both the fields of
  the metadata.
\<close>

theorem resolveCredentials_one_source:
  "fst (resolveCredentials w uid) = Inl credentials_not_found
   \<or> (\<exists>u t. fst (resolveCredentials w uid) = Inr (u, t) \<and> u \<noteq> [] \<and> t \<noteq> []
        \<and> ((\<exists>row. user_settings w uid = Inr \<lparr> data = Some row, error = None \<rparr>
                \<and> canvas_url row = Some u \<and> canvas_token row = Some t)
           \<or> (\<exists>m. getUser w = Some m
                \<and> meta_canvas_url m = Some u \<and> meta_canvas_token m = Some t)))"
proof -
  obtain a b where fs: "from_user_settings w uid = (a, b)"
    by (cases "from_user_settings w uid")
  show ?thesis
  proof (cases "truthy_str a \<and> truthy_str b")
    case True
    then obtain u t where ab: "a = Some u" "b = Some t" "u \<noteq> []" "t \<noteq> []"
      by (cases a; cases b) auto
    from fs ab have "fst (resolveCredentials w uid) = Inr (u, t)"
      by (simp add: resolveCredentials_def)
    with from_user_settings_row [of w uid u t] fs ab show ?thesis
      by blast
  next
    case fallback: False
    show ?thesis
    proof (cases "getUser w")
      case None
      with fs fallback have "fst (resolveCredentials w uid) = Inl credentials_not_found"
        by (cases a; cases b) (auto simp: resolveCredentials_def Let_def)
      then show ?thesis by blast
    next
      case (Some m)
      show ?thesis
      proof (cases "truthy_str (meta_canvas_url m) \<and> truthy_str (meta_canvas_token m)")
        case True
        then obtain u t where mt: "meta_canvas_url m = Some u" "meta_canvas_token m = Some t"
          "u \<noteq> []" "t \<noteq> []"
          by (cases "meta_canvas_url m"; cases "meta_canvas_token m") auto
        with fs fallback Some have "fst (resolveCredentials w uid) = Inr (u, t)"
          by (auto simp: resolveCredentials_def Let_def)
        with Some mt show ?thesis by blast
      next
        case False
        with fs fallback Some have "fst (resolveCredentials w uid) = Inl credentials_not_found"
          by (cases a; cases b) (auto simp: resolveCredentials_def Let_def)
        then show ?thesis by blast
      qed
    qed
  qed
qed

theorem resolveCredentials_one_source_witness:
  "fst (resolveCredentials split_sources ''teacher-1'') = Inl credentials_not_found
   \<and> fst (resolveCredentials split_sources ''teacher-1'') \<noteq> Inr (''foo.edu'', ''mtok'')"
  using resolveCredentials_one_source [of split_sources "''teacher-1''"]
  by (simp add: split_sources_def campus_def resolveCredentials_def from_user_settings_def)

text \<open>
  C8. An authenticated PUT for which neither the settings row nor the metadata holds a
  non-empty URL and token is answered with status 400 and the message
  \<open>Canvas credentials not found. Please complete onboarding.\<close>; the calls it makes are the
  session lookup, the settings query and the metadata lookup, and no Canvas request.
  (The route parameters are non-empty: the router does not match an empty segment.)
\<close>

theorem PUT_submission_credentials_not_found:
  assumes "courseId ps \<noteq> []" "assignmentId ps \<noteq> []" "userId ps \<noteq> []"
    and "getSession w = Some uid"
    and "\<not> (\<exists>row u t. user_settings w uid = Inr \<lparr> data = Some row, error = None \<rparr>
             \<and> canvas_url row = Some u \<and> canvas_token row = Some t \<and> u \<noteq> [] \<and> t \<noteq> [])"
    and "\<not> (\<exists>m u t. getUser w = Some m \<and> meta_canvas_url m = Some u
             \<and> meta_canvas_token m = Some t \<and> u \<noteq> [] \<and> t \<noteq> [])"
  shows "PUT_submission w req ps =
     (\<lparr> status_code = 400,
        content = JObj [(''error'',
                         JStr ''Canvas credentials not found. Please complete onboarding.'')] \<rparr>,
      [CallGetSession, CallUserSettings uid, CallGetUser])
    \<and> (\<forall>r. CallFetch r \<notin> set (snd (PUT_submission w req ps)))"
proof -
  have "PUT_submission w req ps =
     (\<lparr> status_code = 400,
        content = JObj [(''error'',
                         JStr ''Canvas credentials not found. Please complete onboarding.'')] \<rparr>,
      [CallGetSession, CallUserSettings uid, CallGetUser])"
    using assms(1-4) resolveCredentials_none [OF assms(5,6)]
    by (simp add: PUT_submission_def credentials_not_found_def NextResponse_json_def)
  then show ?thesis
    by simp
qed

theorem PUT_submission_credentials_not_found_witness:
  "PUT_submission newcomer
     \<lparr> searchParams_include = None,
       request_json = Inr (JObj [(''submission'', JObj [(''posted_grade'', JStr ''95'')])]) \<rparr>
     \<lparr> courseId = ''1'', assignmentId = ''2'', userId = ''7'' \<rparr> =
     (\<lparr> status_code = 400,
        content = JObj [(''error'',
                         JStr ''Canvas credentials not found. Please complete onboarding.'')] \<rparr>,
      [CallGetSession, CallUserSettings ''teacher-1'', CallGetUser])"
proof -
  let ?ps = "\<lparr> courseId = ''1'', assignmentId = ''2'', userId = ''7'' \<rparr>"
  have s: "getSession newcomer = Some ''teacher-1''"
    by (simp add: newcomer_def campus_def)
  have r: "\<not> (\<exists>row u t. user_settings newcomer ''teacher-1'' = Inr \<lparr> data = Some row, error = None \<rparr>
             \<and> canvas_url row = Some u \<and> canvas_token row = Some t \<and> u \<noteq> [] \<and> t \<noteq> [])"
    by (simp add: newcomer_def)
  have m: "\<not> (\<exists>m u t. getUser newcomer = Some m \<and> meta_canvas_url m = Some u
             \<and> meta_canvas_token m = Some t \<and> u \<noteq> [] \<and> t \<noteq> [])"
    by (auto simp: newcomer_def)
  show ?thesis
    using PUT_submission_credentials_not_found [of ?ps newcomer, OF _ _ _ s r m] by simp
qed

section \<open>Claims about GET of one submission\<close>

text \<open>
  C1. If \<open>getSubmission\<close> throws and the following \<open>getAssignment\<close> succeeds, the answer
  has status 200 and its body holds the error text, the fetched assignment, and a
  submission with id \<open>unknown\<close>, the \<open>user_id\<close> and \<open>assignment_id\<close> of the route, and a
  user whose id is the user id and whose name is \<open>Student\<close> followed by the user id.
\<close>

theorem GET_submission_degraded:
  assumes "courseId ps \<noteq> []" "assignmentId ps \<noteq> []" "userId ps \<noteq> []"
    and "getSession w = Some uid"
    and "fst (resolveCredentials w uid) = Inr (canvasUrl, canvasToken)"
    and "fst (getSubmission w (createCanvasApiClient canvasUrl canvasToken) (courseId ps)
           (assignmentId ps) (userId ps) (Some (submission_include req))) = Inl submissionError"
    and "fst (getAssignment w (createCanvasApiClient canvasUrl canvasToken) (courseId ps)
           (assignmentId ps)) = Inr assignment"
  shows "fst (GET_submission w req ps) =
     \<lparr> status_code = 200,
       content =
         JObj [(''error'', JStr ''Failed to fetch submission details''),
               (''assignment'', assignment),
               (''submission'',
                  JObj [(''id'', JStr ''unknown''),
                        (''user_id'', JStr (userId ps)),
                        (''assignment_id'', JStr (assignmentId ps)),
                        (''user'',
                           JObj [(''id'', JStr (userId ps)),
                                 (''name'', JStr (''Student '' @ userId ps)),
                                 (''sortable_name'', JStr (''Student '' @ userId ps)),
                                 (''avatar_url'', JStr [])])])] \<rparr>"
proof -
  obtain evs where rc: "resolveCredentials w uid = (Inr (canvasUrl, canvasToken), evs)"
    using assms(5) by (cases "resolveCredentials w uid") simp
  obtain evs1 where gs: "getSubmission w (createCanvasApiClient canvasUrl canvasToken)
      (courseId ps) (assignmentId ps) (userId ps) (Some (submission_include req))
      = (Inl submissionError, evs1)"
    using assms(6)
    by (cases "getSubmission w (createCanvasApiClient canvasUrl canvasToken)
      (courseId ps) (assignmentId ps) (userId ps) (Some (submission_include req))") simp
  have "try_submission (Inl submissionError) (userId ps) = None"
    by (simp add: try_submission_def)
  then show ?thesis
    using GET_submission_unfold [OF assms(1-4) rc gs] assms(7)
    by (simp add: catch_submission_def NextResponse_json_def minimal_user_def)
qed

theorem GET_submission_degraded_witness:
  "fst (GET_submission campus
          \<lparr> searchParams_include = None, request_json = Inl (Error ''no body'') \<rparr>
          \<lparr> courseId = ''1'', assignmentId = ''2'', userId = ''7'' \<rparr>) =
     \<lparr> status_code = 200,
       content =
         JObj [(''error'', JStr ''Failed to fetch submission details''),
               (''assignment'', JObj [(''id'', JNum 2)]),
               (''submission'',
                  JObj [(''id'', JStr ''unknown''),
                        (''user_id'', JStr ''7''),
                        (''assignment_id'', JStr ''2''),
                        (''user'',
                           JObj [(''id'', JStr ''7''),
                                 (''name'', JStr ''Student 7''),
                                 (''sortable_name'', JStr ''Student 7''),
                                 (''avatar_url'', JStr [])])])] \<rparr>"
proof -
  let ?ps = "\<lparr> courseId = ''1'', assignmentId = ''2'', userId = ''7'' \<rparr>"
  let ?req = "\<lparr> searchParams_include = None, request_json = Inl (Error ''no body'') \<rparr>"
  have s: "getSession campus = Some ''teacher-1''"
    by (simp add: campus_def)
  have c: "fst (resolveCredentials campus ''teacher-1'') = Inr (''foo.edu'', ''tok'')"
    by (simp add: eval_defs)
  have g: "fst (getSubmission campus (createCanvasApiClient ''foo.edu'' ''tok'') (courseId ?ps)
             (assignmentId ?ps) (userId ?ps) (Some (submission_include ?req)))
           = Inl (enhancedError ''https://foo.edu/api/v1/courses/1/assignments/2/submissions/7?include=user,submission_comments'')"
    by (simp add: eval_defs)
  have a: "fst (getAssignment campus (createCanvasApiClient ''foo.edu'' ''tok'') (courseId ?ps)
             (assignmentId ?ps)) = Inr (JObj [(''id'', JNum 2)])"
    by (simp add: eval_defs)
  show ?thesis
    using GET_submission_degraded [of ?ps campus, OF _ _ _ s c g a] by simp
qed

text \<open>
  C5. If the fetched submission is an object without a \<open>user\<close> field, the answer has
  status 200 and returns the submission with a \<open>user\<close> added whose id is the user id of
  the route and whose name is the non-empty string \<open>Student\<close> followed by the user id.
\<close>

theorem GET_submission_missing_user:
  assumes "courseId ps \<noteq> []" "assignmentId ps \<noteq> []" "userId ps \<noteq> []"
    and "getSession w = Some uid"
    and "fst (resolveCredentials w uid) = Inr (canvasUrl, canvasToken)"
    and "fst (getSubmission w (createCanvasApiClient canvasUrl canvasToken) (courseId ps)
           (assignmentId ps) (userId ps) (Some (submission_include req))) = Inr (JObj kvs)"
    and "property (JObj kvs) ''user'' = None"
  shows "\<exists>submission user.
           fst (GET_submission w req ps) =
             \<lparr> status_code = 200, content = JObj [(''submission'', submission)] \<rparr>
         \<and> submission =
             JObj (kvs @
               [(''user'', JObj [(''id'', JStr (userId ps)),
                                (''name'', JStr (''Student '' @ userId ps)),
                                (''sortable_name'', JStr (''Student '' @ userId ps)),
                                (''avatar_url'', JStr [])])])
         \<and> property submission ''user'' = Some user
         \<and> property user ''id'' = Some (JStr (userId ps))
         \<and> property user ''name'' = Some (JStr (''Student '' @ userId ps))
         \<and> ''Student '' @ userId ps \<noteq> []"
proof -
  obtain evs where rc: "resolveCredentials w uid = (Inr (canvasUrl, canvasToken), evs)"
    using assms(5) by (cases "resolveCredentials w uid") simp
  obtain evs1 where gs: "getSubmission w (createCanvasApiClient canvasUrl canvasToken)
      (courseId ps) (assignmentId ps) (userId ps) (Some (submission_include req))
      = (Inr (JObj kvs), evs1)"
    using assms(6)
    by (cases "getSubmission w (createCanvasApiClient canvasUrl canvasToken)
      (courseId ps) (assignmentId ps) (userId ps) (Some (submission_include req))") simp
  from assms(7) have absent: "map_of kvs ''user'' = None"
    by simp
  have "try_submission (Inr (JObj kvs)) (userId ps) =
      Some (NextResponse_json
        (JObj [(''submission'', JObj (kvs @ [(''user'', minimal_user (userId ps))]))]) 200)"
    using absent by (simp add: try_submission_def update_absent)
  then have "fst (GET_submission w req ps) =
      NextResponse_json
        (JObj [(''submission'', JObj (kvs @ [(''user'', minimal_user (userId ps))]))]) 200"
    using GET_submission_unfold [OF assms(1-4) rc gs] by simp
  moreover have "property (JObj (kvs @ [(''user'', minimal_user (userId ps))])) ''user''
      = Some (minimal_user (userId ps))"
    using map_of_snoc_absent [OF absent] by (simp only: property.simps)
  ultimately show ?thesis
    by (simp add: NextResponse_json_def minimal_user_def)
qed

theorem GET_submission_missing_user_witness:
  "\<exists>submission user.
     fst (GET_submission campus
            \<lparr> searchParams_include = Some ''user'', request_json = Inl (Error ''no body'') \<rparr>
            \<lparr> courseId = ''1'', assignmentId = ''2'', userId = ''8'' \<rparr>) =
       \<lparr> status_code = 200, content = JObj [(''submission'', submission)] \<rparr>
     \<and> submission =
         JObj [(''id'', JNum 5), (''score'', JNum 9),
               (''user'', JObj [(''id'', JStr ''8''),
                                (''name'', JStr ''Student 8''),
                                (''sortable_name'', JStr ''Student 8''),
                                (''avatar_url'', JStr [])])]
     \<and> property submission ''user'' = Some user
     \<and> property user ''id'' = Some (JStr ''8'')
     \<and> property user ''name'' = Some (JStr ''Student 8'')"
proof -
  let ?ps = "\<lparr> courseId = ''1'', assignmentId = ''2'', userId = ''8'' \<rparr>"
  let ?req = "\<lparr> searchParams_include = Some ''user'', request_json = Inl (Error ''no body'') \<rparr>"
  have s: "getSession campus = Some ''teacher-1''"
    by (simp add: campus_def)
  have c: "fst (resolveCredentials campus ''teacher-1'') = Inr (''foo.edu'', ''tok'')"
    by (simp add: eval_defs)
  have g: "fst (getSubmission campus (createCanvasApiClient ''foo.edu'' ''tok'') (courseId ?ps)
             (assignmentId ?ps) (userId ?ps) (Some (submission_include ?req)))
           = Inr (JObj [(''id'', JNum 5), (''score'', JNum 9)])"
    by (simp add: eval_defs)
  have u: "property (JObj [(''id'', JNum 5), (''score'', JNum 9)]) ''user'' = None"
    by simp
  show ?thesis
    using GET_submission_missing_user [of ?ps campus, OF _ _ _ s c g u] by simp
qed

section \<open>Claims about POST ai/grade-submission\<close>

text \<open>
  C6. If the text the model returns for the prompt the handler built does not parse as
  JSON, the answer has status 500 and its body holds an error text and \<open>rawResponse\<close>,
  equal to the model's text; the model is called exactly once.
\<close>

theorem POST_grade_submission_unparsable:
  assumes "request_json req = Inr b"
    and "property b ''assignmentDescription'' = Some ad" "truthy ad"
    and "property b ''submissionContent'' = Some sc" "truthy sc"
    and "prompt_text w ad sc (property b ''pointsPossible'') (property b ''rubric'') = Inr prompt"
    and "generateText w prompt = Inr text"
    and "JSON_parse w text = Inl err"
  shows "POST_grade_submission w req =
     (\<lparr> status_code = 500,
        content = JObj [(''error'', JStr ''Failed to parse AI response''),
                        (''rawResponse'', JStr text)] \<rparr>,
      [CallGenerateText prompt])"
  using POST_grade_submission_unfold [OF assms(1-5), of w] assms(6-8)
  by (simp add: NextResponse_json_def)

theorem POST_grade_submission_unparsable_witness:
  "POST_grade_submission campus
     \<lparr> searchParams_include = None,
       request_json = Inr (JObj [(''assignmentDescription'', JStr ''Essay''),
                                 (''submissionContent'', JStr ''My essay'')]) \<rparr> =
     (\<lparr> status_code = 500,
        content = JObj [(''error'', JStr ''Failed to parse AI response''),
                        (''rawResponse'', JStr ''Grade: 90'')] \<rparr>,
      [CallGenerateText (prompt_lines ''Essay'' ''Not specified'' [] ''My essay'' ''100'')])"
proof -
  let ?b = "JObj [(''assignmentDescription'', JStr ''Essay''),
                  (''submissionContent'', JStr ''My essay'')]"
  let ?req = "\<lparr> searchParams_include = None, request_json = Inr ?b \<rparr>"
  let ?prompt = "prompt_lines ''Essay'' ''Not specified'' [] ''My essay'' ''100''"
  have b: "request_json ?req = Inr ?b" by simp
  have ad: "property ?b ''assignmentDescription'' = Some (JStr ''Essay'')" by simp
  have sc: "property ?b ''submissionContent'' = Some (JStr ''My essay'')" by simp
  have t1: "truthy (JStr ''Essay'')" by simp
  have t2: "truthy (JStr ''My essay'')" by simp
  have p: "prompt_text campus (JStr ''Essay'') (JStr ''My essay'')
             (property ?b ''pointsPossible'') (property ?b ''rubric'') = Inr ?prompt"
    by (simp add: prompt_text_def and_then_def or_default_def rubric_part_def)
  have g: "generateText campus ?prompt = Inr ''Grade: 90''"
    by (simp add: campus_def)
  have j: "JSON_parse campus ''Grade: 90'' = Inl (Error ''Unexpected token'')"
    by (simp add: campus_def)
  show ?thesis
    using POST_grade_submission_unparsable [OF b ad t1 sc t2 p g j] by simp
qed

text \<open>
  C9, as stated, fails: a body that contains both fields, one of them the empty string,
  is answered with status 400 and the model is not called; and a body whose
  \<open>assignmentDescription\<close> is an object with a property \<open>toString\<close> is answered with
  status 500, because building the prompt throws, and the model is not called either.
\<close>

theorem POST_grade_submission_not_called_counterexample:
  "POST_grade_submission campus
     \<lparr> searchParams_include = None,
       request_json = Inr (JObj [(''assignmentDescription'', JStr ''''),
                                 (''submissionContent'', JStr ''My essay'')]) \<rparr> =
     (\<lparr> status_code = 400,
        content = JObj [(''error'',
          JStr ''Assignment description and submission content are required'')] \<rparr>,
      [])
   \<and> POST_grade_submission campus
     \<lparr> searchParams_include = None,
       request_json = Inr (JObj [(''assignmentDescription'', JObj [(''toString'', JNum 1)]),
                                 (''submissionContent'', JStr ''My essay'')]) \<rparr> =
     (\<lparr> status_code = 500,
        content = JObj [(''error'', JStr ''Cannot convert object to primitive value'')] \<rparr>,
      [])"
  by (simp add: POST_grade_submission_def content_required_def NextResponse_json_def
        prompt_text_def and_then_def cannot_convert_def)

text \<open>
  C9, amended. The handler makes no session check. For a body whose
  \<open>assignmentDescription\<close> and \<open>submissionContent\<close> are both present and truthy, it calls
  the model with the prompt whenever the prompt can be built, and answers from the outer
  \<open>catch\<close> without calling the model when building it throws; the prompt can always be
  built when the two fields, \<open>pointsPossible\<close> and \<open>rubric\<close> are strings, numbers,
  booleans, \<open>null\<close> or missing. The result does not depend on the session, the identity
  provider is never called, and the status is never 401.
\<close>

theorem POST_grade_submission_no_session_check:
  "(request_json req = Inr b
      \<and> property b ''assignmentDescription'' = Some ad \<and> truthy ad
      \<and> property b ''submissionContent'' = Some sc \<and> truthy sc
      \<and> prompt_text w ad sc (property b ''pointsPossible'') (property b ''rubric'') = Inr prompt
    \<longrightarrow> snd (POST_grade_submission w req) = [CallGenerateText prompt])
   \<and> (request_json req = Inr b
      \<and> property b ''assignmentDescription'' = Some ad \<and> truthy ad
      \<and> property b ''submissionContent'' = Some sc \<and> truthy sc
      \<and> prompt_text w ad sc (property b ''pointsPossible'') (property b ''rubric'') = Inl e
    \<longrightarrow> POST_grade_submission w req = (caught e ''An unexpected error occurred'', []))
   \<and> (request_json req = Inr b
      \<and> property b ''assignmentDescription'' = Some ad \<and> truthy ad \<and> \<not> is_object ad
      \<and> property b ''submissionContent'' = Some sc \<and> truthy sc \<and> \<not> is_object sc
      \<and> (\<forall>p. property b ''pointsPossible'' = Some p \<longrightarrow> \<not> is_object p)
      \<and> (\<forall>r. property b ''rubric'' = Some r \<longrightarrow> \<not> is_object r)
    \<longrightarrow> (\<exists>built. prompt_text w ad sc (property b ''pointsPossible'') (property b ''rubric'')
                    = Inr built
             \<and> snd (POST_grade_submission w req) = [CallGenerateText built]))
   \<and> POST_grade_submission (w\<lparr>getSession := s\<rparr>) req = POST_grade_submission w req
   \<and> CallGetSession \<notin> set (snd (POST_grade_submission w req))
   \<and> CallGetUser \<notin> set (snd (POST_grade_submission w req))
   \<and> status_code (fst (POST_grade_submission w req)) \<noteq> 401"
proof -
  have 1: "snd (POST_grade_submission w req) = [CallGenerateText p]"
    if "request_json req = Inr b" "property b ''assignmentDescription'' = Some ad" "truthy ad"
       "property b ''submissionContent'' = Some sc" "truthy sc"
       "prompt_text w ad sc (property b ''pointsPossible'') (property b ''rubric'') = Inr p"
    for p
    using POST_grade_submission_unfold [OF that(1-5), of w] that(6) by simp
  have 2: "POST_grade_submission w req = (caught e ''An unexpected error occurred'', [])"
    if "request_json req = Inr b" "property b ''assignmentDescription'' = Some ad" "truthy ad"
       "property b ''submissionContent'' = Some sc" "truthy sc"
       "prompt_text w ad sc (property b ''pointsPossible'') (property b ''rubric'') = Inl e"
    using POST_grade_submission_unfold [OF that(1-5), of w] that(6) by simp
  have 3: "\<exists>built. prompt_text w ad sc (property b ''pointsPossible'') (property b ''rubric'')
                    = Inr built
             \<and> snd (POST_grade_submission w req) = [CallGenerateText built]"
    if h: "request_json req = Inr b" "property b ''assignmentDescription'' = Some ad" "truthy ad"
       "property b ''submissionContent'' = Some sc" "truthy sc"
      and prim: "\<not> is_object ad" "\<not> is_object sc"
       "\<forall>p. property b ''pointsPossible'' = Some p \<longrightarrow> \<not> is_object p"
       "\<forall>r. property b ''rubric'' = Some r \<longrightarrow> \<not> is_object r"
  proof -
    obtain built where
      "prompt_text w ad sc (property b ''pointsPossible'') (property b ''rubric'') = Inr built"
      using prompt_text_primitive [OF prim] by blast
    with 1 [OF h] show ?thesis by blast
  qed
  have 4: "CallGetSession \<notin> set (snd (POST_grade_submission w req))"
    using POST_grade_submission_outcome [of w req] by auto
  have 5: "CallGetUser \<notin> set (snd (POST_grade_submission w req))"
    using POST_grade_submission_outcome [of w req] by auto
  have 6: "status_code (fst (POST_grade_submission w req)) \<noteq> 401"
    using POST_grade_submission_outcome [of w req] by auto
  from 1 2 3 4 5 6 show ?thesis
    using POST_grade_submission_getSession [where w = w and s = s and req = req] by blast
qed

theorem POST_grade_submission_no_session_check_witness:
  "snd (POST_grade_submission (campus\<lparr>getSession := None\<rparr>)
     \<lparr> searchParams_include = None,
       request_json = Inr (JObj [(''assignmentDescription'', JStr ''Essay''),
                                 (''submissionContent'', JStr ''My essay'')]) \<rparr>) =
     [CallGenerateText (prompt_lines ''Essay'' ''Not specified'' [] ''My essay'' ''100'')]
   \<and> status_code (fst (POST_grade_submission (campus\<lparr>getSession := None\<rparr>)
     \<lparr> searchParams_include = None,
       request_json = Inr (JObj [(''assignmentDescription'', JStr ''Essay''),
                                 (''submissionContent'', JStr ''My essay'')]) \<rparr>)) \<noteq> 401"
proof -
  let ?b = "JObj [(''assignmentDescription'', JStr ''Essay''),
                  (''submissionContent'', JStr ''My essay'')]"
  let ?req = "\<lparr> searchParams_include = None, request_json = Inr ?b \<rparr>"
  let ?prompt = "prompt_lines ''Essay'' ''Not specified'' [] ''My essay'' ''100''"
  have p: "prompt_text campus (JStr ''Essay'') (JStr ''My essay'')
             (property ?b ''pointsPossible'') (property ?b ''rubric'') = Inr ?prompt"
    by (simp add: prompt_text_def and_then_def or_default_def rubric_part_def)
  show ?thesis
    using POST_grade_submission_no_session_check
      [of ?req ?b "JStr ''Essay''" "JStr ''My essay''" campus ?prompt _ None] p
    by simp
qed

end
